theory Spec2Isabelle
  imports Main "HOL-Library.Sublist"
begin

text \<open>
  The development follows the server sources: the fallback classifier and the document
  analyzer (\<^verbatim>\<open>ai-service\<close>), the identity helpers and the OAuth state map
  (\<^verbatim>\<open>auth.ts\<close>), the storage layer (\<^verbatim>\<open>DatabaseStorage\<close>), the mail-item
  routes (\<^verbatim>\<open>registerRoutes\<close>) and the notification service
  (\<^verbatim>\<open>email-service.ts\<close>). The first chapter holds the model, the second the properties.

  Conventions. A JavaScript string is a \<^typ>\<open>string\<close>. A value that the code reads from
  the outside (the clock, the host's time zone, the answers of the vision API, the SMTP
  server, the file system) is an argument of the function that reads it, so that every
  theorem quantifies over all of its behaviours. A thrown exception is the \<open>Inl\<close> branch
  of a sum; a \<^verbatim>\<open>try/catch\<close> is a case distinction on it.
\<close>

chapter \<open>The model\<close>

section \<open>JavaScript strings\<close>

text \<open>
  A character is a code unit below 256, so the strings of the model are the strings of
  Latin-1; a string with another code unit is outside the model.
  \<^verbatim>\<open>String.prototype.toLowerCase\<close> on these: the letters A to Z and the capital
  letters U+00C0 to U+00DE (without the multiplication sign U+00D7) move up by 32, every
  other character stays.
\<close>

definition toLowerChar :: "char \<Rightarrow> char" where
  "toLowerChar c =
     (let n = (of_char c :: nat)
      in if (65 \<le> n \<and> n \<le> 90) \<or> (192 \<le> n \<and> n \<le> 222 \<and> n \<noteq> 215) then char_of (n + 32) else c)"

definition toLowerCase :: "string \<Rightarrow> string" where
  "toLowerCase s = map toLowerChar s"

text \<open>\<^verbatim>\<open>s.includes(sub)\<close>: \<open>sub\<close> occurs in \<open>s\<close> as a contiguous substring.\<close>

fun strIncludes :: "string \<Rightarrow> string \<Rightarrow> bool" where
  "strIncludes [] sub = (sub = [])"
| "strIncludes (c # cs) sub = (prefix sub (c # cs) \<or> strIncludes cs sub)"

text \<open>
  \<^verbatim>\<open>s.replace(pat, rep)\<close> with a string pattern: only the first occurrence is
  replaced. (The replacement strings of the code contain no \<^verbatim>\<open>$\<close> pattern.)
\<close>

fun replaceFirst :: "string \<Rightarrow> string \<Rightarrow> string \<Rightarrow> string" where
  "replaceFirst pat rep [] = (if pat = [] then rep else [])"
| "replaceFirst pat rep (c # cs) =
     (if prefix pat (c # cs) then rep @ drop (length pat) (c # cs)
      else c # replaceFirst pat rep cs)"

text \<open>
  \<^verbatim>\<open>fileName.replace(/\.[^/.]+$/, "")\<close>: the regular expression matches a dot
  followed, up to the end of the string, by one or more characters that are neither a
  slash nor a dot. The characters after the last dot or slash form the longest such run;
  the expression matches exactly when that run is not empty and a dot stands before it.
\<close>

definition stripExtension :: "string \<Rightarrow> string" where
  "stripExtension fileName =
     (let r = rev fileName;
          run = takeWhile (\<lambda>c. c \<noteq> CHR ''.'' \<and> c \<noteq> CHR ''/'') r;
          rest = dropWhile (\<lambda>c. c \<noteq> CHR ''.'' \<and> c \<noteq> CHR ''/'') r
      in case rest of
           [] \<Rightarrow> fileName
         | d # front \<Rightarrow> if d = CHR ''.'' \<and> run \<noteq> [] then rev front else fileName)"

text \<open>Decimal and base-36 numerals, as \<^verbatim>\<open>String(n)\<close> and \<^verbatim>\<open>n.toString(36)\<close> print them.\<close>

definition digitChar :: "nat \<Rightarrow> char" where
  "digitChar d = (if d < 10 then char_of (48 + d) else char_of (87 + d))"

function showDigits :: "int \<Rightarrow> int \<Rightarrow> string" where
  "showDigits b n =
     (if b < 2 \<or> n < b then [digitChar (nat n)]
      else showDigits b (n div b) @ [digitChar (nat (n mod b))])"
  by pat_completeness auto
termination
  by (relation "measure (\<lambda>(b, n). nat n)") (auto simp: int_div_less_self)

declare showDigits.simps [simp del]

definition showInt :: "int \<Rightarrow> int \<Rightarrow> string" where
  "showInt b i = (if i < 0 then CHR ''-'' # showDigits b (- i) else showDigits b i)"

definition padStart :: "nat \<Rightarrow> string \<Rightarrow> string" where
  "padStart n s = replicate (n - length s) (CHR ''0'') @ s"

section \<open>The clock and the host's time zone\<close>

text \<open>
  A time value is a number of milliseconds since the epoch, in UTC. The host is the
  reading of the clock (\<^verbatim>\<open>new Date()\<close>) and the local time zone adjustment of
  ECMAScript, \<open>LocalTZA t isUTC\<close>: the offset of local time from UTC, in milliseconds, at
  the UTC time \<open>t\<close> (\<open>isUTC\<close>) or at the local time \<open>t\<close> (otherwise).
\<close>

record host =
  clockNow :: int
  LocalTZA :: "int \<Rightarrow> bool \<Rightarrow> int"

definition msPerDay :: int where
  "msPerDay = 86400000"

definition LocalTime :: "host \<Rightarrow> int \<Rightarrow> int" where
  "LocalTime h t = t + LocalTZA h t True"

definition UTC :: "host \<Rightarrow> int \<Rightarrow> int" where
  "UTC h t = t - LocalTZA h t False"

text \<open>
  The time value of a \<open>Date\<close> object is a time within 8.64e15 milliseconds of the epoch, or
  \<open>NaN\<close> (\<open>None\<close>): \<open>TimeClip\<close> of ECMAScript. \<^verbatim>\<open>new Date()\<close> holds the reading of
  the clock.
\<close>

definition TimeClip :: "int \<Rightarrow> int option" where
  "TimeClip t = (if \<bar>t\<bar> \<le> 8640000000000000 then Some t else None)"

definition newDate :: "host \<Rightarrow> int option" where
  "newDate h = TimeClip (clockNow h)"

text \<open>
  \<^verbatim>\<open>d.setDate(d.getDate() + n)\<close>. Both methods work on local time: \<open>getDate\<close> is the
  day of the month of \<open>LocalTime d\<close>, and \<open>setDate\<close> rebuilds the local time from the
  same year and month, the new day of the month and the same time within the day, which
  is the local time \<open>n\<close> days later, converts it back to UTC and clips it. On \<open>NaN\<close> both
  give \<open>NaN\<close>.
\<close>

definition setDatePlus :: "host \<Rightarrow> int option \<Rightarrow> int \<Rightarrow> int option" where
  "setDatePlus h d n =
     (case d of
        None \<Rightarrow> None
      | Some t \<Rightarrow> TimeClip (UTC h (LocalTime h t + n * msPerDay)))"

text \<open>
  The civil date of a day number (days since 1970-01-01, proleptic Gregorian calendar):
  year, month (1 to 12) and day of the month.
\<close>

definition civilFromDays :: "int \<Rightarrow> int \<times> int \<times> int" where
  "civilFromDays z =
     (let z1 = z + 719468;
          era = z1 div 146097;
          doe = z1 - era * 146097;
          yoe = (doe - doe div 1460 + doe div 36524 - doe div 146096) div 365;
          doy = doe - (365 * yoe + yoe div 4 - yoe div 100);
          mp = (5 * doy + 2) div 153;
          d = doy - (153 * mp + 2) div 5 + 1;
          m = (if mp < 10 then mp + 3 else mp - 9);
          y = yoe + era * 400 + (if m \<le> 2 then 1 else 0)
      in (y, m, d))"

text \<open>
  The UTC date of a time value, printed as \<^verbatim>\<open>YYYY-MM-DD\<close> (years outside 0 to 9999
  are printed with a sign and six digits).
\<close>

definition isoYear :: "int \<Rightarrow> string" where
  "isoYear y =
     (if 0 \<le> y \<and> y \<le> 9999 then padStart 4 (showDigits 10 y)
      else (if y < 0 then CHR ''-'' else CHR ''+'') # padStart 6 (showDigits 10 \<bar>y\<bar>))"

definition isoDay :: "int \<Rightarrow> string" where
  "isoDay day =
     (case civilFromDays day of
        (y, m, d) \<Rightarrow>
          isoYear y @ ''-'' @ padStart 2 (showDigits 10 m) @ ''-'' @ padStart 2 (showDigits 10 d))"

definition isoDate :: "int \<Rightarrow> string" where
  "isoDate t = isoDay (t div msPerDay)"

text \<open>Two hosts: one on UTC, one that moves its clocks forward by an hour at a given time.\<close>

definition utcHost :: "int \<Rightarrow> host" where
  "utcHost t = \<lparr>clockNow = t, LocalTZA = (\<lambda>_ _. 0)\<rparr>"

definition springForwardHost :: "int \<Rightarrow> int \<Rightarrow> host" where
  "springForwardHost change t =
     \<lparr>clockNow = t,
      LocalTZA = (\<lambda>u isUTC. if (if isUTC then u else u - 3600000) \<ge> change then 3600000 else 0)\<rparr>"

section \<open>JavaScript values and thrown errors\<close>

text \<open>
  The values \<^verbatim>\<open>JSON.parse\<close> returns, and \<^verbatim>\<open>undefined\<close>. A number is kept as
  an integer: the code only tests numbers for truthiness.
\<close>

datatype jsval =
    JUndefined
  | JNull
  | JBool bool
  | JNum int
  | JStr string
  | JArr "jsval list"
  | JObj "(string \<times> jsval) list"

text \<open>
  What a \<^verbatim>\<open>catch\<close> receives: an \<^verbatim>\<open>Error\<close> with its message (\<open>JsError\<close>), an
  \<^verbatim>\<open>Error\<close> whose \<open>message\<close> property holds some other value (\<open>ErrorWith\<close>: the
  property is writable, and nothing makes the thrower leave a string there), or a value
  that is not an \<^verbatim>\<open>Error\<close> (\<open>NonError\<close>).
\<close>

datatype thrown = JsError string | ErrorWith jsval | NonError jsval

text \<open>Sequencing of steps that may throw, and \<^verbatim>\<open>try { ... } catch (e) { ... }\<close>.\<close>

definition andThen :: "thrown + 'a \<Rightarrow> ('a \<Rightarrow> thrown + 'b) \<Rightarrow> thrown + 'b" where
  "andThen m f = (case m of Inl e \<Rightarrow> Inl e | Inr x \<Rightarrow> f x)"

definition tryCatch :: "thrown + 'a \<Rightarrow> (thrown \<Rightarrow> thrown + 'a) \<Rightarrow> thrown + 'a" where
  "tryCatch body handler = (case body of Inl e \<Rightarrow> handler e | Inr x \<Rightarrow> Inr x)"

text \<open>
  \<^verbatim>\<open>d.toISOString().split('T')[0]\<close>: the UTC date of the time value; a \<open>RangeError\<close>
  when the time value is \<open>NaN\<close>.
\<close>

definition toISODate :: "int option \<Rightarrow> thrown + string" where
  "toISODate d =
     (case d of
        None \<Rightarrow> Inl (JsError ''Invalid time value'')
      | Some t \<Rightarrow> Inr (isoDate t))"

fun truthy :: "jsval \<Rightarrow> bool" where
  "truthy JUndefined = False"
| "truthy JNull = False"
| "truthy (JBool b) = b"
| "truthy (JNum n) = (n \<noteq> 0)"
| "truthy (JStr s) = (s \<noteq> [])"
| "truthy (JArr _) = True"
| "truthy (JObj _) = True"

text \<open>\<^verbatim>\<open>a || b\<close>\<close>

definition jsOr :: "jsval \<Rightarrow> jsval \<Rightarrow> jsval" where
  "jsOr a b = (if truthy a then a else b)"

text \<open>
  \<^verbatim>\<open>v.name\<close> for one of the property names the code reads (\<open>title\<close>, \<open>summary\<close>,
  \<open>category\<close>, \<open>reminderDate\<close>): a \<open>TypeError\<close> on \<open>null\<close> and \<open>undefined\<close>, the
  property of an object, \<open>undefined\<close> on every other value.
\<close>

fun getProp :: "jsval \<Rightarrow> string \<Rightarrow> thrown + jsval" where
  "getProp JUndefined name = Inl (JsError (''Cannot read properties of undefined (reading '' @ name @ '')''))"
| "getProp JNull name = Inl (JsError (''Cannot read properties of null (reading '' @ name @ '')''))"
| "getProp (JObj props) name = Inr (case map_of props name of None \<Rightarrow> JUndefined | Some v \<Rightarrow> v)"
| "getProp _ name = Inr JUndefined"

section \<open>The fallback classifier\<close>

text \<open>The closed enumeration \<^verbatim>\<open>categories\<close> of the shared schema.\<close>

definition categories_enum :: "string list" where
  "categories_enum =
     [''bill'', ''appointment'', ''personal'', ''promotional'', ''government'', ''insurance'', ''nhs'']"

text \<open>
  \<^verbatim>\<open>interface AIAnalysisResult\<close>. The interface declares \<open>title\<close>, \<open>summary\<close> and
  \<open>reminderDate\<close> as strings, but the analyzer fills them from parsed JSON without a
  check, so at run time they hold any JavaScript value.
\<close>

record AIAnalysisResult =
  title :: jsval
  summary :: jsval
  category :: string
  categories :: "string list"
  customCategories :: "string list"
  reminderDate :: jsval
  extractedText :: string

text \<open>
  \<^verbatim>\<open>validateCategory(category)\<close>. \<open>Array.prototype.includes\<close> compares with
  \<open>SameValueZero\<close>, so only a string that is one of the seven names is kept.
\<close>

fun validateCategory :: "jsval \<Rightarrow> string" where
  "validateCategory (JStr c) = (if c \<in> set categories_enum then c else ''personal'')"
| "validateCategory _ = ''personal''"

text \<open>
  \<^verbatim>\<open>error instanceof Error && (error.message.includes('quota') ||
  error.message.includes('429'))\<close>. On a string \<open>includes\<close> looks for a substring, on an
  array for an element. Reading the method from \<open>undefined\<close> or \<open>null\<close> throws a
  \<open>TypeError\<close>, and so does calling it on a boolean, a number or an object, which have no
  such method.
\<close>

fun isQuotaError :: "thrown \<Rightarrow> thrown + bool" where
  "isQuotaError (JsError message) =
     Inr (strIncludes message ''quota'' \<or> strIncludes message ''429'')"
| "isQuotaError (ErrorWith (JStr message)) =
     Inr (strIncludes message ''quota'' \<or> strIncludes message ''429'')"
| "isQuotaError (ErrorWith (JArr elements)) =
     Inr (JStr ''quota'' \<in> set elements \<or> JStr ''429'' \<in> set elements)"
| "isQuotaError (ErrorWith JUndefined) =
     Inl (JsError ''Cannot read properties of undefined (reading includes)'')"
| "isQuotaError (ErrorWith JNull) =
     Inl (JsError ''Cannot read properties of null (reading includes)'')"
| "isQuotaError (ErrorWith _) = Inl (JsError ''error.message.includes is not a function'')"
| "isQuotaError (NonError _) = Inr False"

text \<open>
  The chain of keyword tests of \<open>generateEnhancedFallback\<close>, in the order of the source:
  the category, the title, the summary before its suffix, and the reminder date. The
  first branch computes a date and throws when \<open>toISOString\<close> does.
\<close>

definition filenameBranch :: "host \<Rightarrow> string \<Rightarrow> thrown + (string \<times> string \<times> string \<times> jsval)" where
  "filenameBranch h fileName =
     (let lowerFileName = toLowerCase fileName;
          t = stripExtension fileName
      in
        if strIncludes lowerFileName ''council'' \<or> strIncludes lowerFileName ''tax''
           \<or> strIncludes lowerFileName ''bill'' \<or> strIncludes lowerFileName ''invoice''
        then andThen (toISODate (setDatePlus h (newDate h) 14)) (\<lambda>reminderDate.
               Inr (''bill'', ''Bill/Tax Document - '' @ t,
                    ''Billing or tax document. Review payment details, due dates, and account information. Set reminder for payment if needed.'',
                    JStr reminderDate))
        else if strIncludes lowerFileName ''appointment'' \<or> strIncludes lowerFileName ''doctor''
           \<or> strIncludes lowerFileName ''medical'' \<or> strIncludes lowerFileName ''clinic''
        then Inr (''appointment'', ''Medical Appointment - '' @ t,
              ''Medical appointment or healthcare document. Verify appointment details, time, and location. Prepare required documents or follow pre-appointment instructions.'',
              JUndefined)
        else if strIncludes lowerFileName ''bank'' \<or> strIncludes lowerFileName ''statement''
           \<or> strIncludes lowerFileName ''finance''
        then Inr (''bill'', ''Financial Document - '' @ t,
              ''Financial statement or banking document. Review transactions, account balance, and any important notices or changes.'',
              JUndefined)
        else if strIncludes lowerFileName ''insurance'' \<or> strIncludes lowerFileName ''policy''
           \<or> strIncludes lowerFileName ''claim''
        then Inr (''insurance'', ''Insurance Document - '' @ t,
              ''Insurance policy, claim, or coverage document. Review policy details, coverage limits, renewal dates, and any required actions.'',
              JUndefined)
        else if strIncludes lowerFileName ''nhs'' \<or> strIncludes lowerFileName ''health''
        then Inr (''nhs'', ''NHS/Health Document - '' @ t,
              ''NHS or health service document. Review appointment details, treatment information, test results, or health records.'',
              JUndefined)
        else if strIncludes lowerFileName ''gov'' \<or> strIncludes lowerFileName ''hmrc''
           \<or> strIncludes lowerFileName ''dvla'' \<or> strIncludes lowerFileName ''government''
        then Inr (''government'', ''Government Document - '' @ t,
              ''Official government correspondence or document. Review requirements, deadlines, and respond by specified dates if action is required.'',
              JUndefined)
        else if strIncludes lowerFileName ''ticket'' \<or> strIncludes lowerFileName ''travel''
           \<or> strIncludes lowerFileName ''train'' \<or> strIncludes lowerFileName ''flight''
        then Inr (''personal'', ''Travel Document - '' @ t,
              ''Travel ticket or booking confirmation. Verify travel details, departure times, seat assignments, and any special requirements.'',
              JUndefined)
        else Inr (''personal'', ''Document - '' @ t,
              ''Document uploaded and categorized based on filename. AI analysis will provide detailed content extraction once service is available.'',
              JUndefined))"

text \<open>
  Whether the lowercased file name contains one of the given keywords, and the keywords
  the chain tests.
\<close>

definition mentions :: "string \<Rightarrow> string list \<Rightarrow> bool" where
  "mentions fileName keywords = list_ex (strIncludes (toLowerCase fileName)) keywords"

definition recognizedKeywords :: "string list" where
  "recognizedKeywords =
     [''council'', ''tax'', ''bill'', ''invoice'',
      ''appointment'', ''doctor'', ''medical'', ''clinic'',
      ''bank'', ''statement'', ''finance'',
      ''insurance'', ''policy'', ''claim'',
      ''nhs'', ''health'',
      ''gov'', ''hmrc'', ''dvla'', ''government'',
      ''ticket'', ''travel'', ''train'', ''flight'']"

definition quotaSuffix :: string where
  "quotaSuffix = '' (AI analysis temporarily unavailable due to quota limits)''"

definition failedSuffix :: string where
  "failedSuffix = '' (Detailed AI analysis failed - document processed based on filename)''"

text \<open>The text that stands in for the OCR transcription.\<close>

definition fallbackText :: "string \<Rightarrow> string \<Rightarrow> string" where
  "fallbackText fileName cat =
     ''Filename-based analysis for: '' @ fileName
       @ ''\<newline>\<newline>This document could not be processed with OCR due to service limitations. The content analysis is based on the filename pattern.\<newline>\<newline>For complete text extraction, please ensure:\<newline>- Document is a clear image (JPG, PNG)\<newline>- Text is readable and well-lit\<newline>- AI service is available\<newline>\<newline>Document type: ''
       @ cat @ ''\<newline>Expected content based on filename patterns.''"

text \<open>
  \<open>generateEnhancedFallback(fileName, error)\<close>: the chain of tests, then the test of the
  error, then the result. Either of the first two may throw.
\<close>

definition generateEnhancedFallback :: "host \<Rightarrow> string \<Rightarrow> thrown \<Rightarrow> thrown + AIAnalysisResult" where
  "generateEnhancedFallback h fileName error =
     andThen (filenameBranch h fileName) (\<lambda>(cat, ttl, summ, reminder).
     andThen (isQuotaError error) (\<lambda>quota.
       Inr \<lparr>title = JStr ttl,
            summary = JStr (summ @ (if quota then quotaSuffix else failedSuffix)),
            category = cat,
            categories = [cat],
            customCategories = [],
            reminderDate = reminder,
            extractedText = fallbackText fileName cat\<rparr>))"

text \<open>
  Two conditions on what the classifier is given. The test of the error returns: the
  error is not an \<^verbatim>\<open>Error\<close>, or its message is a string or an array. The reminder
  date is a date: the reading of the clock and the time 14 days later are time values.
\<close>

definition quotaTestReturns :: "thrown \<Rightarrow> bool" where
  "quotaTestReturns error = (case isQuotaError error of Inl e \<Rightarrow> False | Inr quota \<Rightarrow> True)"

definition reminderInRange :: "host \<Rightarrow> bool" where
  "reminderInRange h = (case setDatePlus h (newDate h) 14 of None \<Rightarrow> False | Some t \<Rightarrow> True)"

section \<open>The document analyzer\<close>

text \<open>
  What \<open>analyzeDocument\<close> asks of the outside: \<^verbatim>\<open>path.extname\<close>, the conversion of
  page 1 of a PDF (\<^verbatim>\<open>pdf2pic\<close>: the page's buffer in base64, \<open>None\<close> when the result
  carries no buffer), \<^verbatim>\<open>fs.readFileSync\<close> (the file's bytes in base64), the chat
  completions of the vision API (the \<open>content\<close> of the first choice, \<open>None\<close> for
  \<open>null\<close>) and \<^verbatim>\<open>JSON.parse\<close>. Each may throw. The five requests carry what the
  code puts into their prompts.
\<close>

datatype chatRequest =
    PdfOcr string
  | PdfAnalysis string string
  | PdfFilenameAnalysis string string
  | ImageOcr string string string
  | ImageAnalysis string string

record aiWorld =
  extname :: "string \<Rightarrow> string"
  convertPDF :: "string \<Rightarrow> thrown + string option"
  readFileSync :: "string \<Rightarrow> thrown + string"
  chatCompletion :: "chatRequest \<Rightarrow> thrown + string option"
  jsonParse :: "string \<Rightarrow> thrown + jsval"

text \<open>\<^verbatim>\<open>content || dflt\<close> for a string or \<open>null\<close>.\<close>

definition contentOr :: "string option \<Rightarrow> string \<Rightarrow> string" where
  "contentOr content dflt = (case content of Some (c # cs) \<Rightarrow> c # cs | _ \<Rightarrow> dflt)"

text \<open>\<^verbatim>\<open>String.prototype.trim\<close> (white space and line terminators among the characters).\<close>

definition isSpace :: "char \<Rightarrow> bool" where
  "isSpace c = ((of_char c :: nat) \<in> {9, 10, 11, 12, 13, 32, 160})"

definition trim :: "string \<Rightarrow> string" where
  "trim s = rev (dropWhile isSpace (rev (dropWhile isSpace s)))"

text \<open>
  The object the analyzer returns after a classification call: each field of the parsed
  answer, or its default. \<^verbatim>\<open>validateCategory(c) || "personal"\<close> is written out.
\<close>

definition fromAnalysis :: "jsval \<Rightarrow> string \<Rightarrow> string \<Rightarrow> jsval \<Rightarrow> string \<Rightarrow> thrown + AIAnalysisResult" where
  "fromAnalysis analysisResult defaultTitle defaultSummary noReminder text =
     andThen (getProp analysisResult ''title'') (\<lambda>t.
     andThen (getProp analysisResult ''summary'') (\<lambda>s.
     andThen (getProp analysisResult ''category'') (\<lambda>c.
     andThen (getProp analysisResult ''reminderDate'') (\<lambda>r.
       let cat = (if validateCategory c \<noteq> [] then validateCategory c else ''personal'')
       in Inr \<lparr>title = jsOr t (JStr defaultTitle),
               summary = jsOr s (JStr defaultSummary),
               category = cat,
               categories = [cat],
               customCategories = [],
               reminderDate = jsOr r noReminder,
               extractedText = text\<rparr>))))"

text \<open>The inner \<open>try\<close> block of the PDF branch: conversion, OCR call, classification call.\<close>

definition pdfViaImage :: "aiWorld \<Rightarrow> string \<Rightarrow> string \<Rightarrow> thrown + AIAnalysisResult" where
  "pdfViaImage w filePath fileName =
     andThen (convertPDF w filePath) (\<lambda>buffer.
       case buffer of
         None \<Rightarrow> Inl (JsError ''Failed to convert PDF to image'')
       | Some base64Image \<Rightarrow>
           if base64Image = [] then Inl (JsError ''PDF conversion produced empty image'')
           else
             andThen (chatCompletion w (PdfOcr base64Image)) (\<lambda>ocr.
               let extractedText = contentOr ocr [] in
               andThen (chatCompletion w (PdfAnalysis fileName extractedText)) (\<lambda>answer.
               andThen (jsonParse w (contentOr answer ''{}'')) (\<lambda>analysisResult.
                 fromAnalysis analysisResult (''PDF Document - '' @ fileName)
                   ''PDF document processed successfully via image conversion and OCR.''
                   JNull extractedText))))"

definition pdfFailedText :: "string \<Rightarrow> string" where
  "pdfFailedText fileName =
     ''PDF Processing Failed - '' @ fileName
       @ ''\<newline>\<newline>This PDF could not be converted to image for OCR processing. Possible reasons:\<newline>- PDF format not compatible with conversion library\<newline>- File corrupted or password protected\<newline>- Insufficient system resources\<newline>\<newline>Try converting manually to image format (JPG/PNG) for full OCR processing.\<newline>\<newline>Analysis based on filename patterns.''"

text \<open>
  The \<open>catch (pdfError)\<close> block: one classification call on the file name alone, with
  the current date in its prompt.
\<close>

definition pdfByFilename :: "aiWorld \<Rightarrow> host \<Rightarrow> string \<Rightarrow> thrown + AIAnalysisResult" where
  "pdfByFilename w h fileName =
     andThen (toISODate (newDate h)) (\<lambda>currentDate.
     andThen (chatCompletion w (PdfFilenameAnalysis fileName currentDate)) (\<lambda>answer.
     andThen (jsonParse w (contentOr answer ''{}'')) (\<lambda>result.
       fromAnalysis result (''PDF - '' @ fileName) ''PDF document analyzed based on filename.''
         JNull (pdfFailedText fileName))))"

text \<open>The image branch: read the file, OCR call, classification call.\<close>

definition imageAnalysis :: "aiWorld \<Rightarrow> string \<Rightarrow> string \<Rightarrow> string \<Rightarrow> thrown + AIAnalysisResult" where
  "imageAnalysis w filePath fileName ext =
     andThen (readFileSync w filePath) (\<lambda>base64Image.
       let mimeType = (if ext = ''.png'' then ''image/png'' else ''image/jpeg'') in
       andThen (chatCompletion w (ImageOcr mimeType base64Image fileName)) (\<lambda>ocr.
         let extractedText = (case ocr of None \<Rightarrow> [] | Some content \<Rightarrow> trim content) in
         andThen (chatCompletion w (ImageAnalysis fileName extractedText)) (\<lambda>answer.
         andThen (jsonParse w (contentOr answer ''{}'')) (\<lambda>analysisResult.
           fromAnalysis analysisResult (''Document - '' @ fileName)
             ''Document processed successfully.'' JUndefined extractedText))))"

text \<open>The outer \<open>try\<close> block of \<open>analyzeDocument\<close>.\<close>

definition analyzeAttempt :: "aiWorld \<Rightarrow> host \<Rightarrow> string \<Rightarrow> string \<Rightarrow> thrown + AIAnalysisResult" where
  "analyzeAttempt w h filePath fileName =
     (let ext = toLowerCase (extname w fileName) in
      if ext = ''.pdf''
      then tryCatch (pdfViaImage w filePath fileName) (\<lambda>pdfError. pdfByFilename w h fileName)
      else imageAnalysis w filePath fileName ext)"

text \<open>
  \<open>analyzeDocument\<close>: the \<open>try\<close> block, and the \<open>catch\<close> block that returns what the
  fallback classifier returns. What the fallback classifier throws leaves the function.
\<close>

definition analyzeDocument :: "aiWorld \<Rightarrow> host \<Rightarrow> string \<Rightarrow> string \<Rightarrow> thrown + AIAnalysisResult" where
  "analyzeDocument w h filePath fileName =
     tryCatch (analyzeAttempt w h filePath fileName)
       (\<lambda>error. generateEnhancedFallback h fileName error)"

text \<open>
  The errors the outside may throw at the analyzer: \<open>worldThrows w e\<close> when one of the
  calls throws \<open>e\<close> on some argument.
\<close>

definition worldThrows :: "aiWorld \<Rightarrow> thrown \<Rightarrow> bool" where
  "worldThrows w e =
     ((\<exists>filePath. convertPDF w filePath = Inl e)
      \<or> (\<exists>filePath. readFileSync w filePath = Inl e)
      \<or> (\<exists>request. chatCompletion w request = Inl e)
      \<or> (\<exists>text. jsonParse w text = Inl e))"

text \<open>What \<^verbatim>\<open>interface AIAnalysisResult\<close> declares of a result.\<close>

fun isString :: "jsval \<Rightarrow> bool" where
  "isString (JStr _) = True"
| "isString _ = False"

definition conformsToInterface :: "AIAnalysisResult \<Rightarrow> bool" where
  "conformsToInterface r =
     (isString (title r) \<and> isString (summary r)
      \<and> category r \<in> set categories_enum
      \<and> set (categories r) \<subseteq> set categories_enum
      \<and> (reminderDate r = JUndefined \<or> isString (reminderDate r)))"

text \<open>
  Worlds for examples. \<open>baseExtname\<close> is \<^verbatim>\<open>path.extname\<close> on a name without
  directories: the part from the last dot on, unless the name has no dot or only a leading
  one, or is \<^verbatim>\<open>..\<close>. In \<open>quotaWorld\<close> every call to the vision API fails for lack of quota. In
  \<open>pdfOcrFailsWorld\<close> the OCR call on a converted PDF fails that way and the other calls
  answer. In \<open>objectMessageWorld\<close> every call to the vision API throws an \<^verbatim>\<open>Error\<close>
  whose \<open>message\<close> is the parsed body of the refusal, an object.
\<close>

definition baseExtname :: "string \<Rightarrow> string" where
  "baseExtname name =
     (let run = takeWhile (\<lambda>c. c \<noteq> CHR ''.'') (rev name);
          rest = dropWhile (\<lambda>c. c \<noteq> CHR ''.'') (rev name)
      in case rest of
           [] \<Rightarrow> []
         | d # front \<Rightarrow> if front = [] \<or> name = ''..'' then [] else CHR ''.'' # rev run)"

definition quotaWorld :: aiWorld where
  "quotaWorld =
     \<lparr>extname = baseExtname,
      convertPDF = (\<lambda>filePath. Inr (Some ''/9j/4AAQSkZJRg'')),
      readFileSync = (\<lambda>filePath. Inr ''iVBORw0KGgo''),
      chatCompletion = (\<lambda>request. Inl (JsError ''429 You exceeded your current quota'')),
      jsonParse = (\<lambda>text. Inl (JsError ''Unexpected end of JSON input''))\<rparr>"

definition pdfOcrFailsWorld :: aiWorld where
  "pdfOcrFailsWorld =
     \<lparr>extname = baseExtname,
      convertPDF = (\<lambda>filePath. Inr (Some ''/9j/4AAQSkZJRg'')),
      readFileSync = (\<lambda>filePath. Inr ''iVBORw0KGgo''),
      chatCompletion = (\<lambda>request.
         case request of
           PdfOcr img \<Rightarrow> Inl (JsError ''429 You exceeded your current quota'')
         | _ \<Rightarrow> Inr (Some ''{\"title\":\"Council tax\",\"category\":\"bill\"}'')),
      jsonParse = (\<lambda>text.
         if text = ''{\"title\":\"Council tax\",\"category\":\"bill\"}''
         then Inr (JObj [(''title'', JStr ''Council tax''), (''category'', JStr ''bill'')])
         else Inl (JsError ''Unexpected token''))\<rparr>"

definition objectMessageWorld :: aiWorld where
  "objectMessageWorld =
     \<lparr>extname = baseExtname,
      convertPDF = (\<lambda>filePath. Inr (Some ''/9j/4AAQSkZJRg'')),
      readFileSync = (\<lambda>filePath. Inr ''iVBORw0KGgo''),
      chatCompletion = (\<lambda>request. Inl (ErrorWith (JObj [(''code'', JStr ''insufficient_quota'')]))),
      jsonParse = (\<lambda>text. Inl (JsError ''Unexpected end of JSON input''))\<rparr>"

section \<open>Identity helpers and the OAuth state map\<close>

text \<open>
  \<^verbatim>\<open>generateUserId(provider, providerId?, email?)\<close>. An absent argument is \<open>None\<close>;
  the empty string is falsy as well. The last two arguments are the readings of
  \<^verbatim>\<open>Date.now()\<close> and of \<^verbatim>\<open>Math.random().toString(36).substring(2)\<close>.
\<close>

definition generateUserId :: "string \<Rightarrow> string option \<Rightarrow> string option \<Rightarrow> int \<Rightarrow> string \<Rightarrow> string" where
  "generateUserId provider providerId email dateNow rnd =
     (case (if provider = ''email'' then email else None, providerId) of
        (Some (c # cs), _) \<Rightarrow>
          ''email_'' @ replaceFirst ''.'' ''_'' (replaceFirst ''@'' ''_'' (c # cs))
      | (_, Some (p # ps)) \<Rightarrow> provider @ ''_'' @ (p # ps)
      | _ \<Rightarrow> provider @ ''_'' @ showInt 10 dateNow @ ''_'' @ rnd)"

text \<open>
  \<^verbatim>\<open>const oauthStates = new Map<string, { timestamp: number }>()\<close>: the entries in
  insertion order. A \<open>Map\<close> holds every key once (\<open>mapInv\<close>).
\<close>

type_synonym oauthStates = "(string \<times> int) list"

definition mapInv :: "oauthStates \<Rightarrow> bool" where
  "mapInv m = distinct (map fst m)"

definition mapGet :: "string \<Rightarrow> oauthStates \<Rightarrow> int option" where
  "mapGet k m = map_of m k"

definition mapSet :: "string \<Rightarrow> int \<Rightarrow> oauthStates \<Rightarrow> oauthStates" where
  "mapSet k v m =
     (if k \<in> set (map fst m) then map (\<lambda>e. if fst e = k then (k, v) else e) m
      else m @ [(k, v)])"

definition mapDelete :: "string \<Rightarrow> oauthStates \<Rightarrow> oauthStates" where
  "mapDelete k m = filter (\<lambda>e. fst e \<noteq> k) m"

text \<open>
  The clean-up loop of \<open>generateOAuthState\<close>: it visits the entries and deletes the
  visited entry when it is too old. A deletion only removes the entry that is being
  visited, so the loop visits exactly the entries the map held when it started.
\<close>

fun sweepLoop :: "int \<Rightarrow> (string \<times> int) list \<Rightarrow> oauthStates \<Rightarrow> oauthStates" where
  "sweepLoop tenMinutesAgo [] m = m"
| "sweepLoop tenMinutesAgo ((key, timestamp) # entries) m =
     sweepLoop tenMinutesAgo entries
       (if timestamp < tenMinutesAgo then mapDelete key m else m)"

text \<open>
  \<open>generateOAuthState\<close> reads \<^verbatim>\<open>Math.random()\<close> once and \<^verbatim>\<open>Date.now()\<close>
  three times: for the state string, for the timestamp of the entry and for the
  clean-up. It returns the state and leaves the new map.
\<close>

definition generateOAuthState ::
  "string \<Rightarrow> int \<Rightarrow> int \<Rightarrow> int \<Rightarrow> oauthStates \<Rightarrow> string \<times> oauthStates" where
  "generateOAuthState rnd nowState nowStamp nowSweep m =
     (let state = rnd @ showInt 36 nowState;
          m1 = mapSet state nowStamp m;
          tenMinutesAgo = nowSweep - 10 * 60 * 1000
      in (state, sweepLoop tenMinutesAgo m1 m1))"

definition verifyOAuthState :: "string \<Rightarrow> int \<Rightarrow> oauthStates \<Rightarrow> bool \<times> oauthStates" where
  "verifyOAuthState state dateNow m =
     (case mapGet state m of
        None \<Rightarrow> (False, m)
      | Some timestamp \<Rightarrow>
          (let fiveMinutesAgo = dateNow - 5 * 60 * 1000
           in if timestamp < fiveMinutesAgo then (False, mapDelete state m)
              else (True, mapDelete state m)))"

text \<open>
  A history of the module: the calls made on the map, one after the other, each with
  the readings of the clock and of the random source it makes, and what the calls return.
\<close>

datatype oauthCall =
    Generate string int int int
  | Verify string int

datatype oauthReturn = State string | Verified bool

fun oauthStep :: "oauthCall \<Rightarrow> oauthStates \<Rightarrow> oauthReturn \<times> oauthStates" where
  "oauthStep (Generate rnd t1 t2 t3) m =
     (case generateOAuthState rnd t1 t2 t3 m of (state, m') \<Rightarrow> (State state, m'))"
| "oauthStep (Verify state t) m =
     (case verifyOAuthState state t m of (ok, m') \<Rightarrow> (Verified ok, m'))"

fun oauthRun :: "oauthCall list \<Rightarrow> oauthStates \<Rightarrow> (oauthCall \<times> oauthReturn) list" where
  "oauthRun [] m = []"
| "oauthRun (c # cs) m = (case oauthStep c m of (r, m') \<Rightarrow> (c, r) # oauthRun cs m')"

text \<open>How often a history verified the state \<open>s\<close> with success.\<close>

definition acceptances :: "string \<Rightarrow> (oauthCall \<times> oauthReturn) list \<Rightarrow> nat" where
  "acceptances s history =
     length (filter (\<lambda>cr. (case fst cr of Verify s' t \<Rightarrow> s' = s | Generate rnd t1 t2 t3 \<Rightarrow> False)
                          \<and> snd cr = Verified True) history)"

definition issues :: "string \<Rightarrow> (oauthCall \<times> oauthReturn) list \<Rightarrow> bool" where
  "issues s history = (State s \<in> set (map snd history))"

section \<open>The storage layer\<close>

text \<open>
  The rows of the tables \<open>users\<close> and \<open>mail_items\<close> of the shared schema. A nullable
  column is an \<open>option\<close>, a timestamp a time value. \<open>usr_emailConfig\<close> is not a column:
  the notification service reads this property from the user object it is given.
\<close>

record emailConfig =
  ec_host :: string
  ec_port :: int
  ec_secure :: bool
  ec_user :: string
  ec_pass :: string
  ec_fromName :: string
  ec_fromEmail :: string

record User =
  usr_id :: string
  usr_email :: "string option"
  usr_firstName :: "string option"
  usr_lastName :: "string option"
  usr_profileImageUrl :: "string option"
  usr_provider :: string
  usr_providerId :: "string option"
  usr_passwordHash :: "string option"
  usr_emailVerified :: "bool option"
  usr_createdAt :: "int option"
  usr_updatedAt :: "int option"
  usr_emailConfig :: "emailConfig option"

record MailItem =
  mi_id :: int
  mi_userId :: string
  mi_title :: string
  mi_summary :: string
  mi_category :: string
  mi_reminderDate :: "string option"
  mi_imageUrl :: string
  mi_fileName :: string
  mi_extractedText :: "string option"
  mi_uploadDate :: int

text \<open>\<open>InsertMailItem\<close>: a row without \<open>id\<close> and \<open>uploadDate\<close>.\<close>

record InsertMailItem =
  ins_userId :: string
  ins_title :: string
  ins_summary :: string
  ins_category :: string
  ins_reminderDate :: "string option"
  ins_imageUrl :: string
  ins_fileName :: string
  ins_extractedText :: "string option"

text \<open>\<open>Partial<InsertMailItem>\<close>: every field may be absent (\<open>None\<close>).\<close>

record MailItemUpdates =
  upd_userId :: "string option"
  upd_title :: "string option"
  upd_summary :: "string option"
  upd_category :: "string option"
  upd_reminderDate :: "string option option"
  upd_imageUrl :: "string option"
  upd_fileName :: "string option"
  upd_extractedText :: "string option option"

text \<open>
  The database: the two tables and the last value of the sequence behind the
  \<open>serial\<close> column \<open>mail_items.id\<close>. \<open>mail_items.user_id\<close> references \<open>users.id\<close>;
  a write that would break the reference is refused by the engine.
\<close>

record database =
  users :: "User list"
  mailItems :: "MailItem list"
  mailItemsSeq :: int

text \<open>
  What a storage method throws: the engine's refusal of a broken reference, and the query
  builder's refusal of an update without values.
\<close>

datatype dbError = ForeignKeyViolation | NoValuesToSet

definition userExists :: "string \<Rightarrow> database \<Rightarrow> bool" where
  "userExists uid db = (uid \<in> set (map usr_id (users db)))"

text \<open>\<^verbatim>\<open>.orderBy(desc(mailItems.uploadDate))\<close> (the engine is free in the order of ties).\<close>

definition orderByUploadDateDesc :: "MailItem list \<Rightarrow> MailItem list" where
  "orderByUploadDateDesc rows = rev (sort_key mi_uploadDate rows)"

definition getUser :: "string \<Rightarrow> database \<Rightarrow> User option" where
  "getUser uid db =
     (case filter (\<lambda>u. usr_id u = uid) (users db) of [] \<Rightarrow> None | user # _ \<Rightarrow> Some user)"

definition getAllMailItems :: "string \<Rightarrow> database \<Rightarrow> MailItem list" where
  "getAllMailItems userId db =
     orderByUploadDateDesc (filter (\<lambda>r. mi_userId r = userId) (mailItems db))"

definition getMailItem :: "int \<Rightarrow> string \<Rightarrow> database \<Rightarrow> MailItem option" where
  "getMailItem itemId userId db =
     (case filter (\<lambda>r. mi_id r = itemId \<and> mi_userId r = userId) (mailItems db) of
        [] \<Rightarrow> None
      | item # _ \<Rightarrow> Some item)"

text \<open>
  \<open>createMailItem\<close>: the engine assigns \<open>id\<close> and \<open>uploadDate\<close> (its clock, \<open>dbNow\<close>).
  The value taken from the sequence is spent also when the engine then refuses the row.
\<close>

definition createMailItem ::
  "InsertMailItem \<Rightarrow> int \<Rightarrow> database \<Rightarrow> (dbError + MailItem) \<times> database" where
  "createMailItem insertMailItem dbNow db =
     (let item = \<lparr>mi_id = mailItemsSeq db + 1,
                  mi_userId = ins_userId insertMailItem,
                  mi_title = ins_title insertMailItem,
                  mi_summary = ins_summary insertMailItem,
                  mi_category = ins_category insertMailItem,
                  mi_reminderDate = ins_reminderDate insertMailItem,
                  mi_imageUrl = ins_imageUrl insertMailItem,
                  mi_fileName = ins_fileName insertMailItem,
                  mi_extractedText = ins_extractedText insertMailItem,
                  mi_uploadDate = dbNow\<rparr>
      in if \<not> userExists (ins_userId insertMailItem) db
         then (Inl ForeignKeyViolation, db\<lparr>mailItemsSeq := mailItemsSeq db + 1\<rparr>)
         else (Inr item,
               db\<lparr>mailItems := mailItems db @ [item], mailItemsSeq := mailItemsSeq db + 1\<rparr>))"

text \<open>\<^verbatim>\<open>.set(updates)\<close>: every field that is present overwrites its column.\<close>

definition applyUpdates :: "MailItemUpdates \<Rightarrow> MailItem \<Rightarrow> MailItem" where
  "applyUpdates updates r =
     r\<lparr>mi_userId := (case upd_userId updates of None \<Rightarrow> mi_userId r | Some v \<Rightarrow> v),
       mi_title := (case upd_title updates of None \<Rightarrow> mi_title r | Some v \<Rightarrow> v),
       mi_summary := (case upd_summary updates of None \<Rightarrow> mi_summary r | Some v \<Rightarrow> v),
       mi_category := (case upd_category updates of None \<Rightarrow> mi_category r | Some v \<Rightarrow> v),
       mi_reminderDate := (case upd_reminderDate updates of None \<Rightarrow> mi_reminderDate r | Some v \<Rightarrow> v),
       mi_imageUrl := (case upd_imageUrl updates of None \<Rightarrow> mi_imageUrl r | Some v \<Rightarrow> v),
       mi_fileName := (case upd_fileName updates of None \<Rightarrow> mi_fileName r | Some v \<Rightarrow> v),
       mi_extractedText := (case upd_extractedText updates of None \<Rightarrow> mi_extractedText r | Some v \<Rightarrow> v)\<rparr>"

text \<open>The update with no field.\<close>

definition noUpdates :: MailItemUpdates where
  "noUpdates =
     \<lparr>upd_userId = None, upd_title = None, upd_summary = None, upd_category = None,
      upd_reminderDate = None, upd_imageUrl = None, upd_fileName = None,
      upd_extractedText = None\<rparr>"

text \<open>
  \<open>updateMailItem\<close>: \<^verbatim>\<open>UPDATE mail_items SET ... WHERE id = ? AND user_id = ? RETURNING *\<close>;
  the first returned row, or \<open>undefined\<close>. The query builder throws on an update with no
  field, before anything reaches the engine. The engine checks the reference to \<open>users\<close>
  for a row whose \<open>user_id\<close> changes.
\<close>

definition updateMailItem ::
  "int \<Rightarrow> string \<Rightarrow> MailItemUpdates \<Rightarrow> database \<Rightarrow> dbError + (MailItem option \<times> database)" where
  "updateMailItem itemId userId updates db =
     (let hit = (\<lambda>r. mi_id r = itemId \<and> mi_userId r = userId);
          updated = map (applyUpdates updates) (filter hit (mailItems db));
          broken = (case upd_userId updates of
                      None \<Rightarrow> False
                    | Some v \<Rightarrow> v \<noteq> userId \<and> updated \<noteq> [] \<and> \<not> userExists v db)
      in if updates = noUpdates then Inl NoValuesToSet
         else if broken then Inl ForeignKeyViolation
         else Inr (case updated of [] \<Rightarrow> None | item # _ \<Rightarrow> Some item,
                   db\<lparr>mailItems := map (\<lambda>r. if hit r then applyUpdates updates r else r) (mailItems db)\<rparr>))"

definition deleteMailItem :: "int \<Rightarrow> string \<Rightarrow> database \<Rightarrow> bool \<times> database" where
  "deleteMailItem itemId userId db =
     (let hit = (\<lambda>r. mi_id r = itemId \<and> mi_userId r = userId)
      in (length (filter hit (mailItems db)) > 0,
          db\<lparr>mailItems := filter (\<lambda>r. \<not> hit r) (mailItems db)\<rparr>))"

definition deleteAllMailItems :: "string \<Rightarrow> database \<Rightarrow> nat \<times> database" where
  "deleteAllMailItems userId db =
     (length (filter (\<lambda>r. mi_userId r = userId) (mailItems db)),
      db\<lparr>mailItems := filter (\<lambda>r. mi_userId r \<noteq> userId) (mailItems db)\<rparr>)"

text \<open>
  \<open>searchMailItems\<close>. The engine's operator \<open>ILIKE\<close> is a parameter: \<open>ilike column
  pattern\<close>. On the nullable column the comparison with \<open>NULL\<close> is not true.
\<close>

definition searchMailItems ::
  "(string \<Rightarrow> string \<Rightarrow> bool) \<Rightarrow> string \<Rightarrow> string \<Rightarrow> database \<Rightarrow> MailItem list" where
  "searchMailItems ilike query userId db =
     (let pattern = ''%'' @ query @ ''%''
      in orderByUploadDateDesc
           (filter (\<lambda>r. mi_userId r = userId
                        \<and> (ilike (mi_title r) pattern \<or> ilike (mi_summary r) pattern
                           \<or> ilike (mi_category r) pattern
                           \<or> (case mi_extractedText r of None \<Rightarrow> False | Some t \<Rightarrow> ilike t pattern)))
              (mailItems db)))"

definition getMailItemsByCategory :: "string \<Rightarrow> string \<Rightarrow> database \<Rightarrow> MailItem list" where
  "getMailItemsByCategory cat userId db =
     orderByUploadDateDesc
       (filter (\<lambda>r. mi_category r = cat \<and> mi_userId r = userId) (mailItems db))"

section \<open>The mail-item routes\<close>

text \<open>
  The token of a request: absent, rejected by \<^verbatim>\<open>jwt.verify\<close>, or valid for a user id.
  \<open>authenticateToken\<close> answers the request itself (left) or passes the user on (right).
\<close>

datatype credential = NoToken | BadToken | TokenFor string

datatype body =
    Items "MailItem list"
  | Item MailItem
  | ErrorBody string
  | SuccessBody

type_synonym response = "nat \<times> body"

definition authenticateToken :: "credential \<Rightarrow> database \<Rightarrow> response + User" where
  "authenticateToken cred db =
     (case cred of
        NoToken \<Rightarrow> Inl (401, ErrorBody ''Access token required'')
      | BadToken \<Rightarrow> Inl (403, ErrorBody ''Invalid or expired token'')
      | TokenFor uid \<Rightarrow>
          (case getUser uid db of
             None \<Rightarrow> Inl (401, ErrorBody ''User not found'')
           | Some user \<Rightarrow> Inr user))"

text \<open>\<^verbatim>\<open>GET /api/mail-items\<close>\<close>

definition listRoute :: "credential \<Rightarrow> database \<Rightarrow> response" where
  "listRoute cred db =
     (case authenticateToken cred db of
        Inl answer \<Rightarrow> answer
      | Inr user \<Rightarrow> (200, Items (getAllMailItems (usr_id user) db)))"

text \<open>
  The three routes with an \<open>id\<close> read it with \<^verbatim>\<open>parseInt(req.params.id)\<close>: \<open>None\<close>
  for \<open>NaN\<close>. The column is a 32-bit integer, and the engine refuses, as a value to
  compare it with, \<open>NaN\<close> and every integer outside the 32-bit range: the query throws.
  \<open>engineInteger\<close> is the value the engine accepts.
\<close>

definition engineInteger :: "int option \<Rightarrow> int option" where
  "engineInteger itemId =
     (case itemId of
        None \<Rightarrow> None
      | Some i \<Rightarrow> if - 2147483648 \<le> i \<and> i \<le> 2147483647 then Some i else None)"

text \<open>\<^verbatim>\<open>GET /api/mail-items/:id\<close>\<close>

definition getRoute :: "credential \<Rightarrow> int option \<Rightarrow> database \<Rightarrow> response" where
  "getRoute cred itemId db =
     (case authenticateToken cred db of
        Inl answer \<Rightarrow> answer
      | Inr user \<Rightarrow>
          (case engineInteger itemId of
             None \<Rightarrow> (500, ErrorBody ''Failed to fetch mail item'')
           | Some i \<Rightarrow>
               (case getMailItem i (usr_id user) db of
                  None \<Rightarrow> (404, ErrorBody ''Mail item not found'')
                | Some item \<Rightarrow> (200, Item item))))"

text \<open>\<^verbatim>\<open>PATCH /api/mail-items/:id\<close>: the body of the request goes to the storage as it is.\<close>

definition patchRoute ::
  "credential \<Rightarrow> int option \<Rightarrow> MailItemUpdates \<Rightarrow> database \<Rightarrow> response \<times> database" where
  "patchRoute cred itemId updates db =
     (case authenticateToken cred db of
        Inl answer \<Rightarrow> (answer, db)
      | Inr user \<Rightarrow>
          (case engineInteger itemId of
             None \<Rightarrow> ((500, ErrorBody ''Failed to update mail item''), db)
           | Some i \<Rightarrow>
               (case updateMailItem i (usr_id user) updates db of
                  Inl err \<Rightarrow> ((500, ErrorBody ''Failed to update mail item''), db)
                | Inr (None, db') \<Rightarrow> ((404, ErrorBody ''Mail item not found''), db')
                | Inr (Some updatedItem, db') \<Rightarrow> ((200, Item updatedItem), db'))))"

text \<open>\<^verbatim>\<open>DELETE /api/mail-items/:id\<close>\<close>

definition deleteRoute :: "credential \<Rightarrow> int option \<Rightarrow> database \<Rightarrow> response \<times> database" where
  "deleteRoute cred itemId db =
     (case authenticateToken cred db of
        Inl answer \<Rightarrow> (answer, db)
      | Inr user \<Rightarrow>
          (case engineInteger itemId of
             None \<Rightarrow> ((500, ErrorBody ''Failed to delete mail item''), db)
           | Some i \<Rightarrow>
               (case deleteMailItem i (usr_id user) db of
                  (deleted, db') \<Rightarrow>
                    if \<not> deleted then ((404, ErrorBody ''Mail item not found''), db')
                    else ((200, SuccessBody), db'))))"

text \<open>
  \<^verbatim>\<open>GET /api/mail-items/search/:query\<close> and \<^verbatim>\<open>GET /api/mail-items/category/:category\<close>.
  The two handlers are registered without \<open>authenticateToken\<close> and call
  \<^verbatim>\<open>dataStorage.searchMailItems(query)\<close> and \<^verbatim>\<open>dataStorage.getMailItemsByCategory(category)\<close>.
  The module imports \<open>storage\<close> and declares no \<open>dataStorage\<close>: reading the name throws a
  \<open>ReferenceError\<close>, which the handler's \<open>catch\<close> answers.
\<close>

definition searchRoute :: "string \<Rightarrow> database \<Rightarrow> response" where
  "searchRoute query db = (500, ErrorBody ''Failed to search mail items'')"

definition categoryRoute :: "string \<Rightarrow> database \<Rightarrow> response" where
  "categoryRoute cat db = (500, ErrorBody ''Failed to fetch mail items by category'')"

text \<open>A database for examples: two users, one mail item each.\<close>

definition exampleUser :: "string \<Rightarrow> string \<Rightarrow> User" where
  "exampleUser uid email =
     \<lparr>usr_id = uid, usr_email = Some email, usr_firstName = None, usr_lastName = None,
      usr_profileImageUrl = None, usr_provider = ''google'', usr_providerId = None,
      usr_passwordHash = None, usr_emailVerified = Some True, usr_createdAt = None,
      usr_updatedAt = None, usr_emailConfig = None\<rparr>"

definition exampleItem :: "int \<Rightarrow> string \<Rightarrow> string \<Rightarrow> int \<Rightarrow> MailItem" where
  "exampleItem itemId userId ttl uploaded =
     \<lparr>mi_id = itemId, mi_userId = userId, mi_title = ttl, mi_summary = ''Summary'',
      mi_category = ''bill'', mi_reminderDate = None, mi_imageUrl = ''/uploads/file-1.png'',
      mi_fileName = ''scan.png'', mi_extractedText = None, mi_uploadDate = uploaded\<rparr>"

definition exampleDb :: database where
  "exampleDb =
     \<lparr>users = [exampleUser ''google_alice'' ''alice@example.com'',
               exampleUser ''google_bob'' ''bob@example.com''],
      mailItems = [exampleItem 1 ''google_alice'' ''Gas bill'' 1710000000000,
                   exampleItem 2 ''google_bob'' ''Dentist'' 1710000100000],
      mailItemsSeq = 2\<rparr>"

section \<open>The notification service\<close>

text \<open>
  What the service asks of the outside: the environment variables, the working directory,
  \<^verbatim>\<open>path.join\<close>, \<^verbatim>\<open>fs.existsSync\<close>, \<^verbatim>\<open>path.extname\<close>, \<^verbatim>\<open>parseInt\<close> (\<open>None\<close> for
  \<open>NaN\<close>), \<^verbatim>\<open>Date.prototype.toLocaleDateString\<close> and the transport's \<open>sendMail\<close>, which
  throws or returns the message id of its \<open>info\<close>.
\<close>

record EmailConfig =
  smtp_host :: string
  smtp_port :: "int option"
  smtp_secure :: bool
  smtp_user :: string
  smtp_pass :: string
  from_name :: string
  from_address :: string

record Attachment =
  att_filename :: string
  att_path :: string
  att_contentType :: string

record MailOptions =
  mo_from :: string
  mo_to :: string
  mo_subject :: string
  mo_text :: string
  mo_html :: string
  mo_attachments :: "Attachment list"

record LetterData =
  letter_id :: int
  letter_title :: string
  letter_fileName :: string
  letter_imageUrl :: string
  letter_uploadDate :: int
  letter_summary :: "string option"
  letter_extractedText :: "string option"

record mailWorld =
  processEnv :: "string \<Rightarrow> string option"
  cwd :: string
  pathJoin :: "string \<Rightarrow> string \<Rightarrow> string"
  existsSync :: "string \<Rightarrow> bool"
  mailExtname :: "string \<Rightarrow> string"
  parseInt :: "string \<Rightarrow> int option"
  toLocaleDateString :: "int \<Rightarrow> string"
  sendMail :: "EmailConfig \<Rightarrow> MailOptions \<Rightarrow> thrown + string option"

text \<open>\<^verbatim>\<open>a || b\<close> on strings: the empty string is falsy.\<close>

definition strOr :: "string \<Rightarrow> string \<Rightarrow> string" where
  "strOr a b = (if a \<noteq> [] then a else b)"

definition getEmailConfig :: "mailWorld \<Rightarrow> User \<Rightarrow> EmailConfig" where
  "getEmailConfig mw user =
     (case usr_emailConfig user of
        Some ec \<Rightarrow>
          \<lparr>smtp_host = ec_host ec, smtp_port = Some (ec_port ec), smtp_secure = ec_secure ec,
           smtp_user = ec_user ec, smtp_pass = ec_pass ec,
           from_name = strOr (ec_fromName ec) ''Posty'',
           from_address = strOr (ec_fromEmail ec) (ec_user ec)\<rparr>
      | None \<Rightarrow>
          \<lparr>smtp_host = contentOr (processEnv mw ''SMTP_HOST'') ''smtp.gmail.com'',
           smtp_port = parseInt mw (contentOr (processEnv mw ''SMTP_PORT'') ''587''),
           smtp_secure = (processEnv mw ''SMTP_SECURE'' = Some ''true''),
           smtp_user = contentOr (processEnv mw ''SMTP_USER'') [],
           smtp_pass = contentOr (processEnv mw ''SMTP_PASS'') [],
           from_name = contentOr (processEnv mw ''FROM_NAME'') ''Posty'',
           from_address =
             contentOr (processEnv mw ''FROM_EMAIL'') (contentOr (processEnv mw ''SMTP_USER'') [])\<rparr>)"

text \<open>\<open>createTransporter\<close>: the configuration of the transport, or the error it throws.\<close>

definition createTransporter :: "mailWorld \<Rightarrow> User \<Rightarrow> thrown + EmailConfig" where
  "createTransporter mw user =
     (let config = getEmailConfig mw user
      in if smtp_user config = [] \<or> smtp_pass config = []
         then Inl (JsError ''SMTP credentials not configured. Please configure email settings in your profile.'')
         else Inr config)"

definition contentTypeOf :: "string \<Rightarrow> string" where
  "contentTypeOf fileExt =
     (if fileExt \<in> set [''.jpg'', ''.jpeg''] then ''image/jpeg''
      else if fileExt = ''.png'' then ''image/png''
      else if fileExt = ''.pdf'' then ''application/pdf''
      else ''application/octet-stream'')"

text \<open>\<^verbatim>\<open>user.firstName || user.email?.split('@')[0] || 'User'\<close>\<close>

definition userNameOf :: "User \<Rightarrow> string" where
  "userNameOf user =
     strOr (contentOr (usr_firstName user) [])
       (strOr (case usr_email user of None \<Rightarrow> [] | Some e \<Rightarrow> takeWhile (\<lambda>c. c \<noteq> CHR ''@'') e) ''User'')"

definition appUrl :: "mailWorld \<Rightarrow> string" where
  "appUrl mw = contentOr (processEnv mw ''APP_URL'') ''https://mail-smart-chepuralex1991.replit.app''"

text \<open>
  The two bodies of the message. The lines of the templates are kept without their
  indentation.
\<close>

definition textBody :: "mailWorld \<Rightarrow> string \<Rightarrow> LetterData \<Rightarrow> string" where
  "textBody mw userName letter =
     ''\<newline>Hi '' @ userName @ '',\<newline>\<newline>Your letter \"'' @ letter_title letter
     @ ''\" has been successfully processed and is ready for review.\<newline>\<newline>Document Details:\<newline>- Title: ''
     @ letter_title letter @ ''\<newline>- File: '' @ letter_fileName letter @ ''\<newline>- Processed: ''
     @ toLocaleDateString mw (letter_uploadDate letter) @ ''\<newline>\<newline>''
     @ (case letter_summary letter of
          Some (c # cs) \<Rightarrow> ''\<newline>AI Summary:\<newline>'' @ (c # cs) @ ''\<newline>''
        | _ \<Rightarrow> [])
     @ ''\<newline>\<newline>''
     @ (case letter_extractedText letter of
          Some (c # cs) \<Rightarrow> ''\<newline>Extracted Text (OCR):\<newline>'' @ (c # cs) @ ''\<newline>''
        | _ \<Rightarrow> [])
     @ ''\<newline>\<newline>You can find the scanned document attached to this email or view it in your Posty dashboard at ''
     @ appUrl mw @ ''.\<newline>\<newline>This email was sent automatically by Posty.\<newline>''"

definition htmlBody :: "mailWorld \<Rightarrow> string \<Rightarrow> LetterData \<Rightarrow> string" where
  "htmlBody mw userName letter =
     ''<div style=\"font-family: Arial, sans-serif; max-width: 600px; margin: 0 auto;\">\<newline>''
     @ ''<h2 style=\"color: #333;\">Your Letter is Ready!</h2>\<newline>''
     @ ''<p>Hi '' @ userName @ '',</p>\<newline>''
     @ ''<p>Your letter \"<strong>'' @ letter_title letter
     @ ''</strong>\" has been successfully processed and is ready for review.</p>\<newline>''
     @ ''<div style=\"background-color: #f8f9fa; padding: 20px; border-radius: 8px; margin: 20px 0;\">\<newline>''
     @ ''<h3 style=\"margin-top: 0; color: #555;\">Document Details:</h3>\<newline>''
     @ ''<ul style=\"color: #666;\">\<newline>''
     @ ''<li><strong>Title:</strong> '' @ letter_title letter @ ''</li>\<newline>''
     @ ''<li><strong>File:</strong> '' @ letter_fileName letter @ ''</li>\<newline>''
     @ ''<li><strong>Processed:</strong> '' @ toLocaleDateString mw (letter_uploadDate letter) @ ''</li>\<newline>''
     @ ''</ul>\<newline></div>\<newline>''
     @ (case letter_summary letter of
          Some (c # cs) \<Rightarrow>
            ''<div style=\"background-color: #e3f2fd; padding: 15px; border-radius: 8px; margin: 20px 0;\">\<newline>''
            @ ''<h4 style=\"margin-top: 0; color: #1976d2;\">AI Summary:</h4>\<newline>''
            @ ''<p style=\"color: #424242; margin-bottom: 0;\">'' @ (c # cs) @ ''</p>\<newline></div>\<newline>''
        | _ \<Rightarrow> [])
     @ (case letter_extractedText letter of
          Some (c # cs) \<Rightarrow>
            ''<div style=\"background-color: #f5f5f5; padding: 15px; border-radius: 8px; margin: 20px 0; border-left: 4px solid #4caf50;\">\<newline>''
            @ ''<h4 style=\"margin-top: 0; color: #388e3c;\">Extracted Text (OCR):</h4>\<newline>''
            @ ''<div style=\"font-family: monospace; font-size: 12px; color: #424242; white-space: pre-wrap; max-height: 300px; overflow-y: auto; background: white; padding: 10px; border-radius: 4px;\">''
            @ (c # cs) @ ''</div>\<newline></div>\<newline>''
        | _ \<Rightarrow> [])
     @ ''<p>You can find the scanned document attached to this email or view it in your Posty dashboard.</p>\<newline>''
     @ ''<div style=\"margin: 30px 0; text-align: center;\">\<newline>''
     @ ''<a href=\"'' @ appUrl mw @ ''\" \<newline>style=\"background-color: #007bff; color: white; padding: 12px 24px; text-decoration: none; border-radius: 6px; display: inline-block;\">\<newline>''
     @ ''View in Posty Dashboard\<newline></a>\<newline></div>\<newline>''
     @ ''<hr style=\"border: none; border-top: 1px solid #eee; margin: 30px 0;\">\<newline>''
     @ ''<p style=\"color: #888; font-size: 12px;\">\<newline>''
     @ ''This email was sent automatically by Posty. If you have any questions, please contact support.\<newline>''
     @ ''</p>\<newline></div>\<newline>''"

text \<open>\<^verbatim>\<open>letter.imageUrl.replace(/^\//, '')\<close>\<close>

definition stripLeadingSlash :: "string \<Rightarrow> string" where
  "stripLeadingSlash s = (case s of c # cs \<Rightarrow> if c = CHR ''/'' then cs else s | [] \<Rightarrow> [])"

text \<open>
  The \<open>try\<close> block of \<open>sendLetterNotification\<close>: how it ends (an exception, or normally)
  and the lines it writes to the console. A line is the text the code passes to the
  console, followed, where the code also passes an object, by the field of the object that
  tells the outcome: the message id of the delivery, or the message of the error.
\<close>

definition notificationAttempt :: "mailWorld \<Rightarrow> User \<Rightarrow> LetterData \<Rightarrow> (thrown + unit) \<times> string list" where
  "notificationAttempt mw user letter =
     (case usr_email user of
        None \<Rightarrow> (Inr (), [''Cannot send email notification: user has no email address''])
      | Some [] \<Rightarrow> (Inr (), [''Cannot send email notification: user has no email address''])
      | Some (c # cs) \<Rightarrow>
          (let config = getEmailConfig mw user in
           case createTransporter mw user of
             Inl e \<Rightarrow> (Inl e, [])
           | Inr transporter \<Rightarrow>
               (let filePath = pathJoin mw (cwd mw) (stripLeadingSlash (letter_imageUrl letter)) in
                if \<not> existsSync mw filePath
                then (Inl (JsError (''File not found: '' @ letter_fileName letter)),
                      [''File not found for email attachment: '' @ filePath])
                else
                  (let fileExt = toLowerCase (mailExtname mw (letter_fileName letter));
                       contentType = contentTypeOf fileExt;
                       userName = userNameOf user;
                       mailOptions =
                         \<lparr>mo_from = from_name config @ '' <'' @ from_address config @ ''>'',
                          mo_to = c # cs,
                          mo_subject = ''Your scanned letter from Posty'',
                          mo_text = textBody mw userName letter,
                          mo_html = htmlBody mw userName letter,
                          mo_attachments =
                            [\<lparr>att_filename = letter_fileName letter, att_path = filePath,
                              att_contentType = contentType\<rparr>]\<rparr>
                   in case sendMail mw transporter mailOptions of
                        Inl e \<Rightarrow> (Inl e, [])
                      | Inr info \<Rightarrow>
                          (Inr (), [''Email sent successfully to '' @ (c # cs) @ '': ''
                                      @ contentOr info ''unknown''])))))"

text \<open>
  \<^verbatim>\<open>error instanceof Error ? error.message : 'Unknown error'\<close>, as the console writes
  it: a string as it is, another value by \<open>inspect\<close> (an array or an object in short).
\<close>

fun inspect :: "jsval \<Rightarrow> string" where
  "inspect JUndefined = ''undefined''"
| "inspect JNull = ''null''"
| "inspect (JBool b) = (if b then ''true'' else ''false'')"
| "inspect (JNum n) = showInt 10 n"
| "inspect (JStr s) = s"
| "inspect (JArr elements) = ''[Array]''"
| "inspect (JObj props) = ''[Object]''"

fun errorMessage :: "thrown \<Rightarrow> string" where
  "errorMessage (JsError message) = message"
| "errorMessage (ErrorWith message) = inspect message"
| "errorMessage (NonError _) = ''Unknown error''"

definition sendLetterNotification :: "mailWorld \<Rightarrow> User \<Rightarrow> LetterData \<Rightarrow> (thrown + unit) \<times> string list" where
  "sendLetterNotification mw user letter =
     (case notificationAttempt mw user letter of
        (Inr done, console) \<Rightarrow> (Inr done, console)
      | (Inl error, console) \<Rightarrow>
          (Inr (), console @ [''Failed to send letter notification email: '' @ errorMessage error]))"

section \<open>The upload route\<close>

text \<open>
  \<^verbatim>\<open>insertMailItemSchema.parse(mailItemData)\<close>: the schema derived from the table asks
  for strings in the text columns and allows \<open>null\<close> in the nullable ones; it throws on
  anything else.
\<close>

definition parseInsertMailItem ::
  "string \<Rightarrow> jsval \<Rightarrow> jsval \<Rightarrow> string \<Rightarrow> jsval \<Rightarrow> string \<Rightarrow> string \<Rightarrow> string \<Rightarrow> thrown + InsertMailItem" where
  "parseInsertMailItem userId ttl summ cat reminder imageUrl fileName text =
     (case (ttl, summ) of
        (JStr t, JStr s) \<Rightarrow>
          (case (case reminder of
                   JNull \<Rightarrow> Some None
                 | JUndefined \<Rightarrow> Some None
                 | JStr d \<Rightarrow> Some (Some d)
                 | _ \<Rightarrow> None) of
             None \<Rightarrow> Inl (JsError ''ZodError'')
           | Some reminderDate' \<Rightarrow>
               Inr \<lparr>ins_userId = userId, ins_title = t, ins_summary = s, ins_category = cat,
                    ins_reminderDate = reminderDate', ins_imageUrl = imageUrl,
                    ins_fileName = fileName, ins_extractedText = Some text\<rparr>)
      | _ \<Rightarrow> Inl (JsError ''ZodError''))"

text \<open>\<open>req.file\<close> as \<open>multer\<close> leaves it.\<close>

record uploadedFile =
  file_path :: string
  file_filename :: string
  file_originalname :: string

text \<open>
  The notification step of the upload handler, with its own \<open>try/catch\<close>: it only writes
  to the console.
\<close>

definition notifyStep :: "mailWorld \<Rightarrow> string \<Rightarrow> MailItem \<Rightarrow> database \<Rightarrow> string list" where
  "notifyStep mw userId newItem db =
     (case getUser userId db of
        None \<Rightarrow> []
      | Some user \<Rightarrow>
          (case sendLetterNotification mw user
                  \<lparr>letter_id = mi_id newItem, letter_title = mi_title newItem,
                   letter_fileName = mi_fileName newItem, letter_imageUrl = mi_imageUrl newItem,
                   letter_uploadDate = mi_uploadDate newItem,
                   letter_summary = Some (mi_summary newItem),
                   letter_extractedText = mi_extractedText newItem\<rparr> of
             (Inr done, console) \<Rightarrow> console
           | (Inl emailError, console) \<Rightarrow>
               console @ [''Email notification failed: '' @ errorMessage emailError]))"

text \<open>
  \<^verbatim>\<open>POST /api/mail-items\<close>: the response, the database afterwards and the console lines
  of the notification.
\<close>

definition uploadRoute ::
  "aiWorld \<Rightarrow> mailWorld \<Rightarrow> host \<Rightarrow> int \<Rightarrow> credential \<Rightarrow> uploadedFile option \<Rightarrow> database
     \<Rightarrow> response \<times> database \<times> string list" where
  "uploadRoute aw mw h dbNow cred file db =
     (case authenticateToken cred db of
        Inl answer \<Rightarrow> (answer, db, [])
      | Inr user \<Rightarrow>
          (case file of
             None \<Rightarrow> ((400, ErrorBody ''No file uploaded''), db, [])
           | Some f \<Rightarrow>
               (case analyzeDocument aw h (file_path f) (file_originalname f) of
                  Inl e \<Rightarrow> ((500, ErrorBody ''Failed to create mail item''), db, [])
                | Inr analysisResult \<Rightarrow>
                    (case parseInsertMailItem (usr_id user) (title analysisResult)
                            (summary analysisResult) (category analysisResult)
                            (jsOr (reminderDate analysisResult) JNull)
                            (''/uploads/'' @ file_filename f) (file_originalname f)
                            (extractedText analysisResult) of
                       Inl e \<Rightarrow> ((500, ErrorBody ''Failed to create mail item''), db, [])
                     | Inr validatedData \<Rightarrow>
                         (case createMailItem validatedData dbNow db of
                            (Inl e, db') \<Rightarrow> ((500, ErrorBody ''Failed to create mail item''), db', [])
                          | (Inr newItem, db') \<Rightarrow>
                              ((201, Item newItem), db', notifyStep mw (usr_id user) newItem db'))))))"

text \<open>
  Worlds for examples: the environment variables, whether the attachment is on disk, and
  what \<open>sendMail\<close> does.
\<close>

definition exampleMailWorld ::
  "(string \<Rightarrow> string option) \<Rightarrow> bool \<Rightarrow> (thrown + string option) \<Rightarrow> mailWorld" where
  "exampleMailWorld env onDisk delivery =
     \<lparr>processEnv = env,
      cwd = ''/home/runner/posty'',
      pathJoin = (\<lambda>a b. a @ ''/'' @ b),
      existsSync = (\<lambda>p. onDisk),
      mailExtname = baseExtname,
      parseInt = (\<lambda>s. if s = ''587'' then Some 587 else None),
      toLocaleDateString = (\<lambda>t. isoDate t),
      sendMail = (\<lambda>config mail. delivery)\<rparr>"

definition smtpEnv :: "string \<Rightarrow> string option" where
  "smtpEnv name =
     (if name = ''SMTP_USER'' then Some ''posty@example.com''
      else if name = ''SMTP_PASS'' then Some ''app-password''
      else None)"

definition noCredentialsWorld :: mailWorld where
  "noCredentialsWorld = exampleMailWorld (\<lambda>name. None) True (Inr (Some ''<1@example.com>''))"

definition missingFileWorld :: mailWorld where
  "missingFileWorld = exampleMailWorld smtpEnv False (Inr (Some ''<1@example.com>''))"

definition smtpDownWorld :: mailWorld where
  "smtpDownWorld = exampleMailWorld smtpEnv True (Inl (JsError ''connect ECONNREFUSED 127.0.0.1:587''))"

definition deliveringWorld :: mailWorld where
  "deliveringWorld = exampleMailWorld smtpEnv True (Inr (Some ''<1@example.com>''))"

definition exampleUpload :: uploadedFile where
  "exampleUpload =
     \<lparr>file_path = ''uploads/file-1710894600000.png'',
      file_filename = ''file-1710894600000.png'',
      file_originalname = ''council_tax_bill_2024.png''\<rparr>"

chapter \<open>The properties\<close>

section \<open>Strings\<close>

lemma strIncludes_iff: "strIncludes s sub \<longleftrightarrow> (\<exists>ps ss. s = ps @ sub @ ss)"
proof (induction s)
  case Nil
  then show ?case by auto
next
  case (Cons c cs)
  show ?case
  proof
    assume "strIncludes (c # cs) sub"
    then consider "prefix sub (c # cs)" | "strIncludes cs sub" by auto
    then show "\<exists>ps ss. c # cs = ps @ sub @ ss"
    proof cases
      case 1
      then obtain ss where "c # cs = sub @ ss" by (auto simp: prefix_def)
      then have "c # cs = [] @ sub @ ss" by simp
      then show ?thesis by blast
    next
      case 2
      with Cons.IH obtain ps ss where "cs = ps @ sub @ ss" by blast
      then have "c # cs = (c # ps) @ sub @ ss" by simp
      then show ?thesis by blast
    qed
  next
    assume "\<exists>ps ss. c # cs = ps @ sub @ ss"
    then obtain ps ss where eq: "c # cs = ps @ sub @ ss" by blast
    show "strIncludes (c # cs) sub"
    proof (cases ps)
      case Nil
      with eq have "prefix sub (c # cs)" by (simp add: prefix_def)
      then show ?thesis by simp
    next
      case (Cons p ps')
      with eq have "cs = ps' @ sub @ ss" by simp
      with Cons.IH have "strIncludes cs sub" by blast
      then show ?thesis by simp
    qed
  qed
qed

section \<open>Identity helpers\<close>

text \<open>
  C10. \<open>generateUserId\<close> is not injective on email addresses: the addresses
  \<^verbatim>\<open>a.b@x.com\<close> and \<^verbatim>\<open>a@b.x.com\<close> differ and receive the same user id, because
  only the first \<^verbatim>\<open>@\<close> and the first dot are replaced by an underscore.
\<close>

theorem generateUserId_not_injective:
  "''a.b@x.com'' \<noteq> ''a@b.x.com''
   \<and> generateUserId ''email'' None (Some ''a.b@x.com'') dateNow rnd = ''email_a_b_x.com''
   \<and> generateUserId ''email'' None (Some ''a@b.x.com'') dateNow rnd = ''email_a_b_x.com''
   \<and> \<not> inj (\<lambda>email. generateUserId ''email'' None (Some email) dateNow rnd)"
proof -
  have 1: "generateUserId ''email'' None (Some ''a.b@x.com'') dateNow rnd = ''email_a_b_x.com''"
    by (simp add: generateUserId_def)
  have 2: "generateUserId ''email'' None (Some ''a@b.x.com'') dateNow rnd = ''email_a_b_x.com''"
    by (simp add: generateUserId_def)
  have 3: "''a.b@x.com'' \<noteq> ''a@b.x.com''"
    by simp
  have "\<not> inj (\<lambda>email. generateUserId ''email'' None (Some email) dateNow rnd)"
  proof
    assume "inj (\<lambda>email. generateUserId ''email'' None (Some email) dateNow rnd)"
    moreover have "generateUserId ''email'' None (Some ''a.b@x.com'') dateNow rnd
        = generateUserId ''email'' None (Some ''a@b.x.com'') dateNow rnd"
      using 1 2 by simp
    ultimately have "''a.b@x.com'' = ''a@b.x.com''"
      by (rule injD)
    with 3 show False by simp
  qed
  with 1 2 3 show ?thesis by simp
qed

section \<open>The fallback classifier\<close>

lemma mentions_Nil: "mentions fileName [] = False"
  by (simp add: mentions_def)

lemma mentions_Cons:
  "mentions fileName (k # ks) = (strIncludes (toLowerCase fileName) k \<or> mentions fileName ks)"
  by (simp add: mentions_def)

lemma mentions_append:
  "mentions fileName (ks @ ks') = (mentions fileName ks \<or> mentions fileName ks')"
  by (simp add: mentions_def)

text \<open>The chain of tests, group by group.\<close>

lemma filenameBranch_chain:
  "filenameBranch h fileName =
     (if mentions fileName [''council'', ''tax'', ''bill'', ''invoice'']
      then andThen (toISODate (setDatePlus h (newDate h) 14)) (\<lambda>reminderDate.
             Inr (''bill'', ''Bill/Tax Document - '' @ stripExtension fileName,
                  ''Billing or tax document. Review payment details, due dates, and account information. Set reminder for payment if needed.'',
                  JStr reminderDate))
      else if mentions fileName [''appointment'', ''doctor'', ''medical'', ''clinic'']
      then Inr (''appointment'', ''Medical Appointment - '' @ stripExtension fileName,
            ''Medical appointment or healthcare document. Verify appointment details, time, and location. Prepare required documents or follow pre-appointment instructions.'',
            JUndefined)
      else if mentions fileName [''bank'', ''statement'', ''finance'']
      then Inr (''bill'', ''Financial Document - '' @ stripExtension fileName,
            ''Financial statement or banking document. Review transactions, account balance, and any important notices or changes.'',
            JUndefined)
      else if mentions fileName [''insurance'', ''policy'', ''claim'']
      then Inr (''insurance'', ''Insurance Document - '' @ stripExtension fileName,
            ''Insurance policy, claim, or coverage document. Review policy details, coverage limits, renewal dates, and any required actions.'',
            JUndefined)
      else if mentions fileName [''nhs'', ''health'']
      then Inr (''nhs'', ''NHS/Health Document - '' @ stripExtension fileName,
            ''NHS or health service document. Review appointment details, treatment information, test results, or health records.'',
            JUndefined)
      else if mentions fileName [''gov'', ''hmrc'', ''dvla'', ''government'']
      then Inr (''government'', ''Government Document - '' @ stripExtension fileName,
            ''Official government correspondence or document. Review requirements, deadlines, and respond by specified dates if action is required.'',
            JUndefined)
      else if mentions fileName [''ticket'', ''travel'', ''train'', ''flight'']
      then Inr (''personal'', ''Travel Document - '' @ stripExtension fileName,
            ''Travel ticket or booking confirmation. Verify travel details, departure times, seat assignments, and any special requirements.'',
            JUndefined)
      else Inr (''personal'', ''Document - '' @ stripExtension fileName,
            ''Document uploaded and categorized based on filename. AI analysis will provide detailed content extraction once service is available.'',
            JUndefined))"
  unfolding filenameBranch_def Let_def mentions_Cons mentions_Nil by (simp only: simp_thms)

text \<open>The category the chain chooses does not depend on the host.\<close>

lemma filenameBranch_category:
  assumes "filenameBranch h fileName = Inr (cat, ttl, summ, reminder)"
  shows "cat =
     (if mentions fileName [''council'', ''tax'', ''bill'', ''invoice''] then ''bill''
      else if mentions fileName [''appointment'', ''doctor'', ''medical'', ''clinic''] then ''appointment''
      else if mentions fileName [''bank'', ''statement'', ''finance''] then ''bill''
      else if mentions fileName [''insurance'', ''policy'', ''claim''] then ''insurance''
      else if mentions fileName [''nhs'', ''health''] then ''nhs''
      else if mentions fileName [''gov'', ''hmrc'', ''dvla'', ''government''] then ''government''
      else ''personal'')"
  using assms unfolding filenameBranch_chain
  by (simp add: andThen_def split: if_splits sum.splits)

lemma filenameBranch_category_enum:
  assumes "filenameBranch h fileName = Inr (cat, ttl, summ, reminder)"
  shows "cat \<in> set categories_enum"
  unfolding filenameBranch_category[OF assms] by (simp add: categories_enum_def)

lemma filenameBranch_reminder:
  assumes "filenameBranch h fileName = Inr (cat, ttl, summ, reminder)"
  shows "reminder = JUndefined \<or> isString reminder"
  using assms unfolding filenameBranch_chain
  by (auto simp: andThen_def split: if_splits sum.splits)

lemma filenameBranch_bill:
  assumes "mentions fileName [''council'', ''tax'', ''bill'', ''invoice'']"
    and "filenameBranch h fileName = Inr (cat, ttl, summ, reminder)"
  shows "cat = ''bill'' \<and> ttl = ''Bill/Tax Document - '' @ stripExtension fileName
       \<and> isString reminder"
  using assms unfolding filenameBranch_chain
  by (auto simp: andThen_def split: sum.splits)

lemma filenameBranch_returns:
  assumes "reminderInRange h \<or> \<not> mentions fileName [''council'', ''tax'', ''bill'', ''invoice'']"
  shows "\<exists>branch. filenameBranch h fileName = Inr branch"
proof (cases "mentions fileName [''council'', ''tax'', ''bill'', ''invoice'']")
  case True
  with assms obtain t where "setDatePlus h (newDate h) 14 = Some t"
    by (auto simp: reminderInRange_def split: option.splits)
  with True show ?thesis
    unfolding filenameBranch_chain by (simp add: andThen_def toISODate_def)
next
  case False
  then show ?thesis
    unfolding filenameBranch_chain by simp
qed

text \<open>When the classifier returns, and what.\<close>

lemma generateEnhancedFallback_Inr:
  "generateEnhancedFallback h fileName error = Inr r \<longleftrightarrow>
     (\<exists>cat ttl summ reminder quota.
        filenameBranch h fileName = Inr (cat, ttl, summ, reminder)
        \<and> isQuotaError error = Inr quota
        \<and> r = \<lparr>title = JStr ttl,
                summary = JStr (summ @ (if quota then quotaSuffix else failedSuffix)),
                category = cat, categories = [cat], customCategories = [],
                reminderDate = reminder, extractedText = fallbackText fileName cat\<rparr>)"
  by (auto simp: generateEnhancedFallback_def andThen_def split: sum.splits prod.splits)

lemma generateEnhancedFallback_returns:
  assumes "quotaTestReturns error"
    and "reminderInRange h \<or> \<not> mentions fileName [''council'', ''tax'', ''bill'', ''invoice'']"
  shows "\<exists>r. generateEnhancedFallback h fileName error = Inr r"
proof -
  from assms(1) obtain quota where q: "isQuotaError error = Inr quota"
    by (auto simp: quotaTestReturns_def split: sum.splits)
  from filenameBranch_returns[OF assms(2)] obtain branch where
    b: "filenameBranch h fileName = Inr branch"
    by blast
  show ?thesis
    by (simp add: generateEnhancedFallback_def andThen_def q b split: prod.splits)
qed

lemma fallback_conforms:
  assumes "generateEnhancedFallback h fileName error = Inr r"
  shows "conformsToInterface r"
proof -
  from assms obtain cat ttl summ reminder quota where
    b: "filenameBranch h fileName = Inr (cat, ttl, summ, reminder)"
    and r: "r = \<lparr>title = JStr ttl,
                summary = JStr (summ @ (if quota then quotaSuffix else failedSuffix)),
                category = cat, categories = [cat], customCategories = [],
                reminderDate = reminder, extractedText = fallbackText fileName cat\<rparr>"
    unfolding generateEnhancedFallback_Inr by blast
  from filenameBranch_category_enum[OF b] filenameBranch_reminder[OF b] show ?thesis
    by (simp add: conformsToInterface_def r)
qed

lemma quotaSuffix_neq_failedSuffix: "quotaSuffix \<noteq> failedSuffix"
  by (simp add: quotaSuffix_def failedSuffix_def)

lemma setDatePlus_same_offset:
  assumes "newDate h = Some (clockNow h)"
    and "LocalTZA h (LocalTime h (clockNow h) + n * msPerDay) False = LocalTZA h (clockNow h) True"
  shows "setDatePlus h (newDate h) n = TimeClip (clockNow h + n * msPerDay)"
  using assms by (simp add: setDatePlus_def UTC_def LocalTime_def)

lemma isoDate_plus_days: "isoDate (t + n * msPerDay) = isoDay (t div msPerDay + n)"
  by (simp add: isoDate_def msPerDay_def add.commute)

text \<open>
  The reminder date of the first group is the date 14 days after the UTC date of the
  invocation when the host's offset from UTC is the same at both times.
\<close>

lemma fallback_reminder_same_offset:
  assumes "mentions fileName [''council'', ''tax'', ''bill'', ''invoice'']"
    and "generateEnhancedFallback h fileName error = Inr r"
    and "LocalTZA h (LocalTime h (clockNow h) + 14 * msPerDay) False = LocalTZA h (clockNow h) True"
  shows "reminderDate r = JStr (isoDay (clockNow h div msPerDay + 14))"
proof -
  from assms(2) obtain cat ttl summ reminder where
    b: "filenameBranch h fileName = Inr (cat, ttl, summ, reminder)" and r: "reminderDate r = reminder"
    unfolding generateEnhancedFallback_Inr by auto
  from b assms(1) obtain d where d: "toISODate (setDatePlus h (newDate h) 14) = Inr d"
    and rem: "reminder = JStr d"
    unfolding filenameBranch_chain by (auto simp: andThen_def split: sum.splits)
  from d obtain t where t: "setDatePlus h (newDate h) 14 = Some t" and dt: "d = isoDate t"
    by (auto simp: toISODate_def split: option.splits)
  from t have n: "newDate h = Some (clockNow h)"
    by (auto simp: setDatePlus_def newDate_def TimeClip_def split: option.splits if_splits)
  from setDatePlus_same_offset[OF n assms(3)] t have "t = clockNow h + 14 * msPerDay"
    by (auto simp: TimeClip_def split: if_splits)
  with dt isoDate_plus_days[of "clockNow h" 14] r rem show ?thesis
    by simp
qed

text \<open>
  Where the classifier throws: on an \<^verbatim>\<open>Error\<close> whose message is an object, a number,
  a boolean, \<open>null\<close> or \<open>undefined\<close>, and, for a name of the first group, on a clock
  whose reading 14 days later is no time value.
\<close>

lemma fallback_throws:
  "generateEnhancedFallback (utcHost 1710894600000) ''scan.png''
       (ErrorWith (JObj [(''code'', JStr ''insufficient_quota'')]))
     = Inl (JsError ''error.message.includes is not a function'')
   \<and> generateEnhancedFallback (utcHost 8640000000000000) ''bill.pdf'' (JsError ''Connection error.'')
     = Inl (JsError ''Invalid time value'')"
  by code_simp

text \<open>
  C3 fails on a host whose clocks move forward between the invocation and the reminder.
  The classifier is called for \<^verbatim>\<open>bill.pdf\<close> on 2024-03-20 at 00:30 UTC, on a host
  whose local time jumps one hour ahead on 2024-03-31 at 01:00 UTC. \<open>setDate\<close> moves the
  local time 14 days on, to 00:30 on 2024-04-03, which is 23:30 UTC on 2024-04-02, and
  \<open>toISOString\<close> prints the UTC date: the reminder date is 2024-04-02, thirteen days
  after the date of the invocation. The date fourteen days after it is 2024-04-03, which is
  what the same call returns on a host that runs on UTC.
\<close>

theorem fallback_reminder_thirteen_days:
  "mentions ''bill.pdf'' [''bill'', ''invoice'', ''council'', ''tax'']
   \<and> toISODate (newDate (springForwardHost 1711846800000 1710894600000)) = Inr ''2024-03-20''
   \<and> generateEnhancedFallback (springForwardHost 1711846800000 1710894600000) ''bill.pdf''
        (JsError ''Connection error.'')
      = Inr \<lparr>title = JStr ''Bill/Tax Document - bill'',
              summary = JStr ''Billing or tax document. Review payment details, due dates, and account information. Set reminder for payment if needed. (Detailed AI analysis failed - document processed based on filename)'',
              category = ''bill'', categories = [''bill''], customCategories = [],
              reminderDate = JStr ''2024-04-02'',
              extractedText = fallbackText ''bill.pdf'' ''bill''\<rparr>
   \<and> isoDay (1710894600000 div msPerDay + 14) = ''2024-04-03''
   \<and> generateEnhancedFallback (utcHost 1710894600000) ''bill.pdf'' (JsError ''Connection error.'')
      = Inr \<lparr>title = JStr ''Bill/Tax Document - bill'',
              summary = JStr ''Billing or tax document. Review payment details, due dates, and account information. Set reminder for payment if needed. (Detailed AI analysis failed - document processed based on filename)'',
              category = ''bill'', categories = [''bill''], customCategories = [],
              reminderDate = JStr ''2024-04-03'',
              extractedText = fallbackText ''bill.pdf'' ''bill''\<rparr>"
  by code_simp

text \<open>
  C4. A file name whose lowercased form contains none of the recognized keywords is
  classified as \<open>personal\<close>, with the generic title and summary and no reminder date. The
  classifier returns this result whenever its test of the error returns, and otherwise
  throws what that test throws.
\<close>

theorem fallback_no_keyword:
  assumes "\<not> mentions fileName recognizedKeywords"
  shows "generateEnhancedFallback h fileName error =
           (case isQuotaError error of
              Inl typeError \<Rightarrow> Inl typeError
            | Inr quota \<Rightarrow>
                Inr \<lparr>title = JStr (''Document - '' @ stripExtension fileName),
                     summary = JStr (''Document uploaded and categorized based on filename. AI analysis will provide detailed content extraction once service is available.''
                                     @ (if quota then quotaSuffix else failedSuffix)),
                     category = ''personal'', categories = [''personal''], customCategories = [],
                     reminderDate = JUndefined,
                     extractedText = fallbackText fileName ''personal''\<rparr>)
       \<and> (quotaTestReturns error \<longrightarrow>
            (\<exists>r. generateEnhancedFallback h fileName error = Inr r
                 \<and> category r = ''personal''
                 \<and> categories r = [''personal'']
                 \<and> title r = JStr (''Document - '' @ stripExtension fileName)
                 \<and> summary r
                     = JStr (''Document uploaded and categorized based on filename. AI analysis will provide detailed content extraction once service is available.''
                             @ (if isQuotaError error = Inr True then quotaSuffix else failedSuffix))
                 \<and> reminderDate r = JUndefined))"
proof -
  from assms have b: "filenameBranch h fileName =
      Inr (''personal'', ''Document - '' @ stripExtension fileName,
       ''Document uploaded and categorized based on filename. AI analysis will provide detailed content extraction once service is available.'',
       JUndefined)"
    unfolding filenameBranch_chain recognizedKeywords_def
    by (simp add: mentions_Cons mentions_Nil)
  have 1: "generateEnhancedFallback h fileName error =
           (case isQuotaError error of
              Inl typeError \<Rightarrow> Inl typeError
            | Inr quota \<Rightarrow>
                Inr \<lparr>title = JStr (''Document - '' @ stripExtension fileName),
                     summary = JStr (''Document uploaded and categorized based on filename. AI analysis will provide detailed content extraction once service is available.''
                                     @ (if quota then quotaSuffix else failedSuffix)),
                     category = ''personal'', categories = [''personal''], customCategories = [],
                     reminderDate = JUndefined,
                     extractedText = fallbackText fileName ''personal''\<rparr>)"
    by (simp add: generateEnhancedFallback_def andThen_def b split: sum.splits)
  have 2: "\<exists>r. generateEnhancedFallback h fileName error = Inr r
                 \<and> category r = ''personal''
                 \<and> categories r = [''personal'']
                 \<and> title r = JStr (''Document - '' @ stripExtension fileName)
                 \<and> summary r
                     = JStr (''Document uploaded and categorized based on filename. AI analysis will provide detailed content extraction once service is available.''
                             @ (if isQuotaError error = Inr True then quotaSuffix else failedSuffix))
                 \<and> reminderDate r = JUndefined"
    if "quotaTestReturns error"
  proof -
    from that obtain quota where q: "isQuotaError error = Inr quota"
      by (auto simp: quotaTestReturns_def split: sum.splits)
    show ?thesis
      unfolding 1 q by simp
  qed
  from 1 2 show ?thesis
    by blast
qed

lemma random_xyz_no_keyword: "\<not> mentions ''random_xyz.png'' recognizedKeywords"
  by code_simp

lemma random_xyz_result:
  "(case isQuotaError (JsError ''Connection error.'') of
      Inl typeError \<Rightarrow> Inl typeError
    | Inr quota \<Rightarrow>
        Inr \<lparr>title = JStr (''Document - '' @ stripExtension ''random_xyz.png''),
             summary = JStr (''Document uploaded and categorized based on filename. AI analysis will provide detailed content extraction once service is available.''
                             @ (if quota then quotaSuffix else failedSuffix)),
             category = ''personal'', categories = [''personal''], customCategories = [],
             reminderDate = JUndefined,
             extractedText = fallbackText ''random_xyz.png'' ''personal''\<rparr>)
   = Inr \<lparr>title = JStr ''Document - random_xyz'',
           summary = JStr ''Document uploaded and categorized based on filename. AI analysis will provide detailed content extraction once service is available. (Detailed AI analysis failed - document processed based on filename)'',
           category = ''personal'', categories = [''personal''], customCategories = [],
           reminderDate = JUndefined,
           extractedText = fallbackText ''random_xyz.png'' ''personal''\<rparr>"
  by code_simp

theorem fallback_no_keyword_witness:
  "generateEnhancedFallback (utcHost 1710894600000) ''random_xyz.png'' (JsError ''Connection error.'')
     = Inr \<lparr>title = JStr ''Document - random_xyz'',
             summary = JStr ''Document uploaded and categorized based on filename. AI analysis will provide detailed content extraction once service is available. (Detailed AI analysis failed - document processed based on filename)'',
             category = ''personal'', categories = [''personal''], customCategories = [],
             reminderDate = JUndefined,
             extractedText = fallbackText ''random_xyz.png'' ''personal''\<rparr>"
  using fallback_no_keyword[OF random_xyz_no_keyword, of "utcHost 1710894600000"
      "JsError ''Connection error.''", THEN conjunct1]
  unfolding random_xyz_result .

text \<open>
  C5 (amended). The fallback classifier is a function of the file name, the clock with
  the host's time zone, and the error it is given, of which it uses only the outcome of the
  quota test. It returns whenever that test returns and the reminder date, for a name that
  gets one, is a date. Every result it returns conforms to the interface, and its \<open>extractedText\<close> is the fixed
  explanatory text filled in with the file name and the category, whatever the time and the
  error. Two invocations with the same file name on the same host at the same time, with
  errors that agree on the quota test, return the same result; with any two errors, the
  results differ in the suffix of the summary only.
\<close>

theorem fallback_total_deterministic:
  "(quotaTestReturns error
      \<and> (reminderInRange h \<or> \<not> mentions fileName [''council'', ''tax'', ''bill'', ''invoice''])
      \<longrightarrow> (\<exists>r. generateEnhancedFallback h fileName error = Inr r))
   \<and> (generateEnhancedFallback h fileName error = Inr r
      \<longrightarrow> conformsToInterface r
          \<and> extractedText r = fallbackText fileName (category r))
   \<and> (generateEnhancedFallback h fileName error = Inr r
        \<and> isQuotaError error' = isQuotaError error
      \<longrightarrow> generateEnhancedFallback h fileName error' = Inr r)
   \<and> (generateEnhancedFallback h fileName error = Inr r
        \<and> generateEnhancedFallback h fileName error' = Inr r'
      \<longrightarrow> title r' = title r \<and> category r' = category r \<and> categories r' = categories r
          \<and> customCategories r' = customCategories r \<and> reminderDate r' = reminderDate r
          \<and> extractedText r' = extractedText r
          \<and> (\<exists>s. summary r
                    = JStr (s @ (if isQuotaError error = Inr True then quotaSuffix else failedSuffix))
                 \<and> summary r'
                    = JStr (s @ (if isQuotaError error' = Inr True then quotaSuffix else failedSuffix))))
   \<and> (generateEnhancedFallback h fileName error = Inr r
        \<and> generateEnhancedFallback h' fileName error' = Inr r'
      \<longrightarrow> extractedText r' = extractedText r)"
proof (intro conjI impI)
  assume "quotaTestReturns error
      \<and> (reminderInRange h \<or> \<not> mentions fileName [''council'', ''tax'', ''bill'', ''invoice''])"
  then show "\<exists>r. generateEnhancedFallback h fileName error = Inr r"
    using generateEnhancedFallback_returns[of error h fileName] by blast
next
  assume "generateEnhancedFallback h fileName error = Inr r"
  then show "conformsToInterface r"
    by (rule fallback_conforms)
next
  assume "generateEnhancedFallback h fileName error = Inr r"
  then show "extractedText r = fallbackText fileName (category r)"
    unfolding generateEnhancedFallback_Inr by auto
next
  assume "generateEnhancedFallback h fileName error = Inr r
        \<and> isQuotaError error' = isQuotaError error"
  then show "generateEnhancedFallback h fileName error' = Inr r"
    by (simp add: generateEnhancedFallback_def)
next
  assume a: "generateEnhancedFallback h fileName error = Inr r
        \<and> generateEnhancedFallback h fileName error' = Inr r'"
  then obtain cat ttl summ reminder quota quota' where
    r: "r = \<lparr>title = JStr ttl,
                summary = JStr (summ @ (if quota then quotaSuffix else failedSuffix)),
                category = cat, categories = [cat], customCategories = [],
                reminderDate = reminder, extractedText = fallbackText fileName cat\<rparr>"
    and r': "r' = \<lparr>title = JStr ttl,
                summary = JStr (summ @ (if quota' then quotaSuffix else failedSuffix)),
                category = cat, categories = [cat], customCategories = [],
                reminderDate = reminder, extractedText = fallbackText fileName cat\<rparr>"
    and q: "isQuotaError error = Inr quota" and q': "isQuotaError error' = Inr quota'"
    unfolding generateEnhancedFallback_Inr by auto
  show "title r' = title r" by (simp add: r r')
  show "category r' = category r" by (simp add: r r')
  show "categories r' = categories r" by (simp add: r r')
  show "customCategories r' = customCategories r" by (simp add: r r')
  show "reminderDate r' = reminderDate r" by (simp add: r r')
  show "extractedText r' = extractedText r" by (simp add: r r')
  have "summary r = JStr (summ @ (if isQuotaError error = Inr True then quotaSuffix else failedSuffix))"
    by (simp add: r q)
  moreover have "summary r' = JStr (summ @ (if isQuotaError error' = Inr True then quotaSuffix else failedSuffix))"
    by (simp add: r' q')
  ultimately show "\<exists>s. summary r
                    = JStr (s @ (if isQuotaError error = Inr True then quotaSuffix else failedSuffix))
                 \<and> summary r'
                    = JStr (s @ (if isQuotaError error' = Inr True then quotaSuffix else failedSuffix))"
    by blast
next
  assume a: "generateEnhancedFallback h fileName error = Inr r
        \<and> generateEnhancedFallback h' fileName error' = Inr r'"
  then obtain cat ttl summ reminder cat' ttl' summ' reminder' where
    b: "filenameBranch h fileName = Inr (cat, ttl, summ, reminder)"
    and b': "filenameBranch h' fileName = Inr (cat', ttl', summ', reminder')"
    and r: "extractedText r = fallbackText fileName cat"
    and r': "extractedText r' = fallbackText fileName cat'"
    unfolding generateEnhancedFallback_Inr by auto
  from filenameBranch_category[OF b] filenameBranch_category[OF b'] have "cat' = cat"
    by simp
  with r r' show "extractedText r' = extractedText r"
    by simp
qed

lemma scan_png_conditions:
  "quotaTestReturns (JsError ''Connection error.'')
   \<and> (reminderInRange (utcHost 1710894600000)
        \<or> \<not> mentions ''scan.png'' [''council'', ''tax'', ''bill'', ''invoice''])"
  by code_simp

lemma scan_png_result:
  "generateEnhancedFallback (utcHost 1710894600000) ''scan.png'' (JsError ''Connection error.'')
     = Inr \<lparr>title = JStr ''Document - scan'',
             summary = JStr ''Document uploaded and categorized based on filename. AI analysis will provide detailed content extraction once service is available. (Detailed AI analysis failed - document processed based on filename)'',
             category = ''personal'', categories = [''personal''], customCategories = [],
             reminderDate = JUndefined,
             extractedText = fallbackText ''scan.png'' ''personal''\<rparr>
   \<and> isQuotaError (NonError JNull) = isQuotaError (JsError ''Connection error.'')"
  by code_simp

theorem fallback_total_deterministic_witness:
  "(\<exists>r. generateEnhancedFallback (utcHost 1710894600000) ''scan.png'' (JsError ''Connection error.'')
          = Inr r)
   \<and> generateEnhancedFallback (utcHost 1710894600000) ''scan.png'' (NonError JNull)
     = Inr \<lparr>title = JStr ''Document - scan'',
             summary = JStr ''Document uploaded and categorized based on filename. AI analysis will provide detailed content extraction once service is available. (Detailed AI analysis failed - document processed based on filename)'',
             category = ''personal'', categories = [''personal''], customCategories = [],
             reminderDate = JUndefined,
             extractedText = fallbackText ''scan.png'' ''personal''\<rparr>
   \<and> conformsToInterface
        \<lparr>title = JStr ''Document - scan'',
         summary = JStr ''Document uploaded and categorized based on filename. AI analysis will provide detailed content extraction once service is available. (Detailed AI analysis failed - document processed based on filename)'',
         category = ''personal'', categories = [''personal''], customCategories = [],
         reminderDate = JUndefined,
         extractedText = fallbackText ''scan.png'' ''personal''\<rparr>"
proof (intro conjI)
  show "\<exists>r. generateEnhancedFallback (utcHost 1710894600000) ''scan.png''
          (JsError ''Connection error.'') = Inr r"
    by (rule fallback_total_deterministic[where h = "utcHost 1710894600000"
          and fileName = "''scan.png''" and error = "JsError ''Connection error.''",
          THEN conjunct1, THEN mp, OF scan_png_conditions])
  show "generateEnhancedFallback (utcHost 1710894600000) ''scan.png'' (NonError JNull)
     = Inr \<lparr>title = JStr ''Document - scan'',
             summary = JStr ''Document uploaded and categorized based on filename. AI analysis will provide detailed content extraction once service is available. (Detailed AI analysis failed - document processed based on filename)'',
             category = ''personal'', categories = [''personal''], customCategories = [],
             reminderDate = JUndefined,
             extractedText = fallbackText ''scan.png'' ''personal''\<rparr>"
    by (rule fallback_total_deterministic[where h = "utcHost 1710894600000"
          and fileName = "''scan.png''" and error = "JsError ''Connection error.''"
          and error' = "NonError JNull",
          THEN conjunct2, THEN conjunct2, THEN conjunct1, THEN mp, OF scan_png_result])
  show "conformsToInterface
        \<lparr>title = JStr ''Document - scan'',
         summary = JStr ''Document uploaded and categorized based on filename. AI analysis will provide detailed content extraction once service is available. (Detailed AI analysis failed - document processed based on filename)'',
         category = ''personal'', categories = [''personal''], customCategories = [],
         reminderDate = JUndefined,
         extractedText = fallbackText ''scan.png'' ''personal''\<rparr>"
    by (rule fallback_total_deterministic[where h = "utcHost 1710894600000"
          and fileName = "''scan.png''" and error = "JsError ''Connection error.''",
          THEN conjunct2, THEN conjunct1, THEN mp, OF scan_png_result[THEN conjunct1],
          THEN conjunct1])
qed

text \<open>
  The claim as stated fails: with the same file name, host and time, a quota error and
  another error give results with different summaries.
\<close>

theorem fallback_total_deterministic_counterexample:
  "generateEnhancedFallback (utcHost 1710894600000) ''scan.png''
       (JsError ''429 You exceeded your current quota'')
     \<noteq> generateEnhancedFallback (utcHost 1710894600000) ''scan.png'' (JsError ''Connection error.'')
   \<and> generateEnhancedFallback (utcHost 1710894600000) ''scan.png''
       (JsError ''429 You exceeded your current quota'')
     = Inr \<lparr>title = JStr ''Document - scan'',
             summary = JStr ''Document uploaded and categorized based on filename. AI analysis will provide detailed content extraction once service is available. (AI analysis temporarily unavailable due to quota limits)'',
             category = ''personal'', categories = [''personal''], customCategories = [],
             reminderDate = JUndefined,
             extractedText = fallbackText ''scan.png'' ''personal''\<rparr>
   \<and> generateEnhancedFallback (utcHost 1710894600000) ''scan.png'' (JsError ''Connection error.'')
     = Inr \<lparr>title = JStr ''Document - scan'',
             summary = JStr ''Document uploaded and categorized based on filename. AI analysis will provide detailed content extraction once service is available. (Detailed AI analysis failed - document processed based on filename)'',
             category = ''personal'', categories = [''personal''], customCategories = [],
             reminderDate = JUndefined,
             extractedText = fallbackText ''scan.png'' ''personal''\<rparr>"
  by code_simp

text \<open>
  C6 (amended). The chain of keyword tests, read in the order of the list: the first
  group with a keyword in the lowercased file name decides the category of the result. For
  the first group the title is \<open>Bill/Tax Document - \<close> followed by the name without its
  extension, and the result carries a reminder date. The classifier returns a result
  whenever its test of the error returns and, for a name of the first group, the reminder
  date is a date.
\<close>

theorem fallback_keyword_table:
  "(quotaTestReturns error
      \<and> (reminderInRange h \<or> \<not> mentions fileName [''council'', ''tax'', ''bill'', ''invoice''])
      \<longrightarrow> (\<exists>r. generateEnhancedFallback h fileName error = Inr r))
   \<and> (generateEnhancedFallback h fileName error = Inr r \<longrightarrow>
        (mentions fileName [''council'', ''tax'', ''bill'', ''invoice'']
           \<longrightarrow> category r = ''bill''
               \<and> title r = JStr (''Bill/Tax Document - '' @ stripExtension fileName)
               \<and> isString (reminderDate r))
        \<and> (\<not> mentions fileName [''council'', ''tax'', ''bill'', ''invoice'']
             \<and> mentions fileName [''appointment'', ''doctor'', ''medical'', ''clinic'']
           \<longrightarrow> category r = ''appointment'')
        \<and> (\<not> mentions fileName [''council'', ''tax'', ''bill'', ''invoice'',
                                  ''appointment'', ''doctor'', ''medical'', ''clinic'']
             \<and> mentions fileName [''bank'', ''statement'', ''finance'']
           \<longrightarrow> category r = ''bill'')
        \<and> (\<not> mentions fileName [''council'', ''tax'', ''bill'', ''invoice'',
                                  ''appointment'', ''doctor'', ''medical'', ''clinic'',
                                  ''bank'', ''statement'', ''finance'']
             \<and> mentions fileName [''insurance'', ''policy'', ''claim'']
           \<longrightarrow> category r = ''insurance'')
        \<and> (\<not> mentions fileName [''council'', ''tax'', ''bill'', ''invoice'',
                                  ''appointment'', ''doctor'', ''medical'', ''clinic'',
                                  ''bank'', ''statement'', ''finance'',
                                  ''insurance'', ''policy'', ''claim'']
             \<and> mentions fileName [''nhs'', ''health'']
           \<longrightarrow> category r = ''nhs'')
        \<and> (\<not> mentions fileName [''council'', ''tax'', ''bill'', ''invoice'',
                                  ''appointment'', ''doctor'', ''medical'', ''clinic'',
                                  ''bank'', ''statement'', ''finance'',
                                  ''insurance'', ''policy'', ''claim'',
                                  ''nhs'', ''health'']
             \<and> mentions fileName [''gov'', ''hmrc'', ''dvla'', ''government'']
           \<longrightarrow> category r = ''government'')
        \<and> (\<not> mentions fileName [''council'', ''tax'', ''bill'', ''invoice'',
                                  ''appointment'', ''doctor'', ''medical'', ''clinic'',
                                  ''bank'', ''statement'', ''finance'',
                                  ''insurance'', ''policy'', ''claim'',
                                  ''nhs'', ''health'',
                                  ''gov'', ''hmrc'', ''dvla'', ''government'']
             \<and> mentions fileName [''ticket'', ''travel'', ''train'', ''flight'']
           \<longrightarrow> category r = ''personal''))"
proof (rule conjI)
  show "quotaTestReturns error
      \<and> (reminderInRange h \<or> \<not> mentions fileName [''council'', ''tax'', ''bill'', ''invoice''])
      \<longrightarrow> (\<exists>r. generateEnhancedFallback h fileName error = Inr r)"
    using generateEnhancedFallback_returns[of error h fileName] by blast
next
  have split2: "mentions fileName [''council'', ''tax'', ''bill'', ''invoice'',
                             ''appointment'', ''doctor'', ''medical'', ''clinic'']
      = (mentions fileName [''council'', ''tax'', ''bill'', ''invoice'']
         \<or> mentions fileName [''appointment'', ''doctor'', ''medical'', ''clinic''])"
    using mentions_append[of fileName "[''council'', ''tax'', ''bill'', ''invoice'']"
        "[''appointment'', ''doctor'', ''medical'', ''clinic'']"] by simp
  have split3: "mentions fileName [''council'', ''tax'', ''bill'', ''invoice'',
                             ''appointment'', ''doctor'', ''medical'', ''clinic'',
                             ''bank'', ''statement'', ''finance'']
      = (mentions fileName [''council'', ''tax'', ''bill'', ''invoice'',
                             ''appointment'', ''doctor'', ''medical'', ''clinic'']
         \<or> mentions fileName [''bank'', ''statement'', ''finance''])"
    using mentions_append[of fileName "[''council'', ''tax'', ''bill'', ''invoice'',
                             ''appointment'', ''doctor'', ''medical'', ''clinic'']"
        "[''bank'', ''statement'', ''finance'']"] by simp
  have split4: "mentions fileName [''council'', ''tax'', ''bill'', ''invoice'',
                             ''appointment'', ''doctor'', ''medical'', ''clinic'',
                             ''bank'', ''statement'', ''finance'',
                             ''insurance'', ''policy'', ''claim'']
      = (mentions fileName [''council'', ''tax'', ''bill'', ''invoice'',
                             ''appointment'', ''doctor'', ''medical'', ''clinic'',
                             ''bank'', ''statement'', ''finance'']
         \<or> mentions fileName [''insurance'', ''policy'', ''claim''])"
    using mentions_append[of fileName "[''council'', ''tax'', ''bill'', ''invoice'',
                             ''appointment'', ''doctor'', ''medical'', ''clinic'',
                             ''bank'', ''statement'', ''finance'']"
        "[''insurance'', ''policy'', ''claim'']"] by simp
  have split5: "mentions fileName [''council'', ''tax'', ''bill'', ''invoice'',
                             ''appointment'', ''doctor'', ''medical'', ''clinic'',
                             ''bank'', ''statement'', ''finance'',
                             ''insurance'', ''policy'', ''claim'',
                             ''nhs'', ''health'']
      = (mentions fileName [''council'', ''tax'', ''bill'', ''invoice'',
                             ''appointment'', ''doctor'', ''medical'', ''clinic'',
                             ''bank'', ''statement'', ''finance'',
                             ''insurance'', ''policy'', ''claim'']
         \<or> mentions fileName [''nhs'', ''health''])"
    using mentions_append[of fileName "[''council'', ''tax'', ''bill'', ''invoice'',
                             ''appointment'', ''doctor'', ''medical'', ''clinic'',
                             ''bank'', ''statement'', ''finance'',
                             ''insurance'', ''policy'', ''claim'']"
        "[''nhs'', ''health'']"] by simp
  have split6: "mentions fileName [''council'', ''tax'', ''bill'', ''invoice'',
                             ''appointment'', ''doctor'', ''medical'', ''clinic'',
                             ''bank'', ''statement'', ''finance'',
                             ''insurance'', ''policy'', ''claim'',
                             ''nhs'', ''health'',
                             ''gov'', ''hmrc'', ''dvla'', ''government'']
      = (mentions fileName [''council'', ''tax'', ''bill'', ''invoice'',
                             ''appointment'', ''doctor'', ''medical'', ''clinic'',
                             ''bank'', ''statement'', ''finance'',
                             ''insurance'', ''policy'', ''claim'',
                             ''nhs'', ''health'']
         \<or> mentions fileName [''gov'', ''hmrc'', ''dvla'', ''government''])"
    using mentions_append[of fileName "[''council'', ''tax'', ''bill'', ''invoice'',
                             ''appointment'', ''doctor'', ''medical'', ''clinic'',
                             ''bank'', ''statement'', ''finance'',
                             ''insurance'', ''policy'', ''claim'',
                             ''nhs'', ''health'']"
        "[''gov'', ''hmrc'', ''dvla'', ''government'']"] by simp
  show "generateEnhancedFallback h fileName error = Inr r \<longrightarrow>
        (mentions fileName [''council'', ''tax'', ''bill'', ''invoice'']
           \<longrightarrow> category r = ''bill''
               \<and> title r = JStr (''Bill/Tax Document - '' @ stripExtension fileName)
               \<and> isString (reminderDate r))
        \<and> (\<not> mentions fileName [''council'', ''tax'', ''bill'', ''invoice'']
             \<and> mentions fileName [''appointment'', ''doctor'', ''medical'', ''clinic'']
           \<longrightarrow> category r = ''appointment'')
        \<and> (\<not> mentions fileName [''council'', ''tax'', ''bill'', ''invoice'',
                                  ''appointment'', ''doctor'', ''medical'', ''clinic'']
             \<and> mentions fileName [''bank'', ''statement'', ''finance'']
           \<longrightarrow> category r = ''bill'')
        \<and> (\<not> mentions fileName [''council'', ''tax'', ''bill'', ''invoice'',
                                  ''appointment'', ''doctor'', ''medical'', ''clinic'',
                                  ''bank'', ''statement'', ''finance'']
             \<and> mentions fileName [''insurance'', ''policy'', ''claim'']
           \<longrightarrow> category r = ''insurance'')
        \<and> (\<not> mentions fileName [''council'', ''tax'', ''bill'', ''invoice'',
                                  ''appointment'', ''doctor'', ''medical'', ''clinic'',
                                  ''bank'', ''statement'', ''finance'',
                                  ''insurance'', ''policy'', ''claim'']
             \<and> mentions fileName [''nhs'', ''health'']
           \<longrightarrow> category r = ''nhs'')
        \<and> (\<not> mentions fileName [''council'', ''tax'', ''bill'', ''invoice'',
                                  ''appointment'', ''doctor'', ''medical'', ''clinic'',
                                  ''bank'', ''statement'', ''finance'',
                                  ''insurance'', ''policy'', ''claim'',
                                  ''nhs'', ''health'']
             \<and> mentions fileName [''gov'', ''hmrc'', ''dvla'', ''government'']
           \<longrightarrow> category r = ''government'')
        \<and> (\<not> mentions fileName [''council'', ''tax'', ''bill'', ''invoice'',
                                  ''appointment'', ''doctor'', ''medical'', ''clinic'',
                                  ''bank'', ''statement'', ''finance'',
                                  ''insurance'', ''policy'', ''claim'',
                                  ''nhs'', ''health'',
                                  ''gov'', ''hmrc'', ''dvla'', ''government'']
             \<and> mentions fileName [''ticket'', ''travel'', ''train'', ''flight'']
           \<longrightarrow> category r = ''personal'')"
  proof
    assume "generateEnhancedFallback h fileName error = Inr r"
    then obtain cat ttl summ reminder where
      b: "filenameBranch h fileName = Inr (cat, ttl, summ, reminder)"
      and c: "category r = cat" and t: "title r = JStr ttl" and d: "reminderDate r = reminder"
      unfolding generateEnhancedFallback_Inr by auto
    have g1: "category r = ''bill''
               \<and> title r = JStr (''Bill/Tax Document - '' @ stripExtension fileName)
               \<and> isString (reminderDate r)"
      if "mentions fileName [''council'', ''tax'', ''bill'', ''invoice'']"
      using filenameBranch_bill[OF that b] c t d by simp
    note rest = filenameBranch_category[OF b, folded c]
    show "(mentions fileName [''council'', ''tax'', ''bill'', ''invoice'']
           \<longrightarrow> category r = ''bill''
               \<and> title r = JStr (''Bill/Tax Document - '' @ stripExtension fileName)
               \<and> isString (reminderDate r))
        \<and> (\<not> mentions fileName [''council'', ''tax'', ''bill'', ''invoice'']
             \<and> mentions fileName [''appointment'', ''doctor'', ''medical'', ''clinic'']
           \<longrightarrow> category r = ''appointment'')
        \<and> (\<not> mentions fileName [''council'', ''tax'', ''bill'', ''invoice'',
                                  ''appointment'', ''doctor'', ''medical'', ''clinic'']
             \<and> mentions fileName [''bank'', ''statement'', ''finance'']
           \<longrightarrow> category r = ''bill'')
        \<and> (\<not> mentions fileName [''council'', ''tax'', ''bill'', ''invoice'',
                                  ''appointment'', ''doctor'', ''medical'', ''clinic'',
                                  ''bank'', ''statement'', ''finance'']
             \<and> mentions fileName [''insurance'', ''policy'', ''claim'']
           \<longrightarrow> category r = ''insurance'')
        \<and> (\<not> mentions fileName [''council'', ''tax'', ''bill'', ''invoice'',
                                  ''appointment'', ''doctor'', ''medical'', ''clinic'',
                                  ''bank'', ''statement'', ''finance'',
                                  ''insurance'', ''policy'', ''claim'']
             \<and> mentions fileName [''nhs'', ''health'']
           \<longrightarrow> category r = ''nhs'')
        \<and> (\<not> mentions fileName [''council'', ''tax'', ''bill'', ''invoice'',
                                  ''appointment'', ''doctor'', ''medical'', ''clinic'',
                                  ''bank'', ''statement'', ''finance'',
                                  ''insurance'', ''policy'', ''claim'',
                                  ''nhs'', ''health'']
             \<and> mentions fileName [''gov'', ''hmrc'', ''dvla'', ''government'']
           \<longrightarrow> category r = ''government'')
        \<and> (\<not> mentions fileName [''council'', ''tax'', ''bill'', ''invoice'',
                                  ''appointment'', ''doctor'', ''medical'', ''clinic'',
                                  ''bank'', ''statement'', ''finance'',
                                  ''insurance'', ''policy'', ''claim'',
                                  ''nhs'', ''health'',
                                  ''gov'', ''hmrc'', ''dvla'', ''government'']
             \<and> mentions fileName [''ticket'', ''travel'', ''train'', ''flight'']
           \<longrightarrow> category r = ''personal'')"
      unfolding split6 split5 split4 split3 split2 using g1 rest by presburger
  qed
qed

lemma example_conditions:
  "quotaTestReturns (JsError ''Connection error.'') \<and> reminderInRange (utcHost 1710894600000)"
  by code_simp

lemma council_tax_bill_group: "mentions ''council_tax_bill_2024.pdf'' [''council'', ''tax'', ''bill'', ''invoice'']"
  by code_simp

lemma example_group_2:
  "\<not> mentions ''medical_appointment_confirmation.pdf'' [''council'', ''tax'', ''bill'', ''invoice'']
   \<and> mentions ''medical_appointment_confirmation.pdf'' [''appointment'', ''doctor'', ''medical'', ''clinic'']"
  by code_simp

lemma example_group_3:
  "\<not> mentions ''bank_statement_december.pdf'' [''council'', ''tax'', ''bill'', ''invoice'', ''appointment'', ''doctor'', ''medical'', ''clinic'']
   \<and> mentions ''bank_statement_december.pdf'' [''bank'', ''statement'', ''finance'']"
  by code_simp

lemma example_group_4:
  "\<not> mentions ''insurance_policy_renewal.pdf'' [''council'', ''tax'', ''bill'', ''invoice'', ''appointment'', ''doctor'', ''medical'', ''clinic'', ''bank'', ''statement'', ''finance'']
   \<and> mentions ''insurance_policy_renewal.pdf'' [''insurance'', ''policy'', ''claim'']"
  by code_simp

lemma example_group_5:
  "\<not> mentions ''nhs_letter.jpg'' [''council'', ''tax'', ''bill'', ''invoice'', ''appointment'', ''doctor'', ''medical'', ''clinic'', ''bank'', ''statement'', ''finance'', ''insurance'', ''policy'', ''claim'']
   \<and> mentions ''nhs_letter.jpg'' [''nhs'', ''health'']"
  by code_simp

lemma example_group_6:
  "\<not> mentions ''dvla_reminder.png'' [''council'', ''tax'', ''bill'', ''invoice'', ''appointment'', ''doctor'', ''medical'', ''clinic'', ''bank'', ''statement'', ''finance'', ''insurance'', ''policy'', ''claim'', ''nhs'', ''health'']
   \<and> mentions ''dvla_reminder.png'' [''gov'', ''hmrc'', ''dvla'', ''government'']"
  by code_simp

lemma example_group_7:
  "\<not> mentions ''train_ticket_ukraine.pdf'' [''council'', ''tax'', ''bill'', ''invoice'', ''appointment'', ''doctor'', ''medical'', ''clinic'', ''bank'', ''statement'', ''finance'', ''insurance'', ''policy'', ''claim'', ''nhs'', ''health'', ''gov'', ''hmrc'', ''dvla'', ''government'']
   \<and> mentions ''train_ticket_ukraine.pdf'' [''ticket'', ''travel'', ''train'', ''flight'']"
  by code_simp

theorem fallback_keyword_table_witness:
  "(\<exists>r. generateEnhancedFallback (utcHost 1710894600000) ''council_tax_bill_2024.pdf'' (JsError ''Connection error.'') = Inr r
          \<and> category r = ''bill'') 
   \<and> (\<exists>r. generateEnhancedFallback (utcHost 1710894600000) ''medical_appointment_confirmation.pdf'' (JsError ''Connection error.'') = Inr r
          \<and> category r = ''appointment'') 
   \<and> (\<exists>r. generateEnhancedFallback (utcHost 1710894600000) ''bank_statement_december.pdf'' (JsError ''Connection error.'') = Inr r
          \<and> category r = ''bill'') 
   \<and> (\<exists>r. generateEnhancedFallback (utcHost 1710894600000) ''insurance_policy_renewal.pdf'' (JsError ''Connection error.'') = Inr r
          \<and> category r = ''insurance'') 
   \<and> (\<exists>r. generateEnhancedFallback (utcHost 1710894600000) ''nhs_letter.jpg'' (JsError ''Connection error.'') = Inr r
          \<and> category r = ''nhs'') 
   \<and> (\<exists>r. generateEnhancedFallback (utcHost 1710894600000) ''dvla_reminder.png'' (JsError ''Connection error.'') = Inr r
          \<and> category r = ''government'') 
   \<and> (\<exists>r. generateEnhancedFallback (utcHost 1710894600000) ''train_ticket_ukraine.pdf'' (JsError ''Connection error.'') = Inr r
          \<and> category r = ''personal'')"
proof (intro conjI)

  show "\<exists>r. generateEnhancedFallback (utcHost 1710894600000) ''council_tax_bill_2024.pdf'' (JsError ''Connection error.'') = Inr r
          \<and> category r = ''bill''"
  proof -
    from example_conditions have "quotaTestReturns (JsError ''Connection error.'')
        \<and> (reminderInRange (utcHost 1710894600000)
            \<or> \<not> mentions ''council_tax_bill_2024.pdf'' [''council'', ''tax'', ''bill'', ''invoice''])"
      by blast
    from fallback_keyword_table[where h = "utcHost 1710894600000" and fileName = "''council_tax_bill_2024.pdf''" and error = "JsError ''Connection error.''",
        THEN conjunct1, THEN mp, OF this]
    obtain r where r: "generateEnhancedFallback (utcHost 1710894600000) ''council_tax_bill_2024.pdf'' (JsError ''Connection error.'') = Inr r"
      by blast
    from fallback_keyword_table[where h = "utcHost 1710894600000" and fileName = "''council_tax_bill_2024.pdf''" and error = "JsError ''Connection error.''"
        and r = r, THEN conjunct2, THEN mp, OF r]
    have "category r = ''bill''"
      using council_tax_bill_group by blast
    with r show ?thesis
      by blast
  qed

  show "\<exists>r. generateEnhancedFallback (utcHost 1710894600000) ''medical_appointment_confirmation.pdf'' (JsError ''Connection error.'') = Inr r
          \<and> category r = ''appointment''"
  proof -
    from example_conditions have "quotaTestReturns (JsError ''Connection error.'')
        \<and> (reminderInRange (utcHost 1710894600000)
            \<or> \<not> mentions ''medical_appointment_confirmation.pdf'' [''council'', ''tax'', ''bill'', ''invoice''])"
      by blast
    from fallback_keyword_table[where h = "utcHost 1710894600000" and fileName = "''medical_appointment_confirmation.pdf''" and error = "JsError ''Connection error.''",
        THEN conjunct1, THEN mp, OF this]
    obtain r where r: "generateEnhancedFallback (utcHost 1710894600000) ''medical_appointment_confirmation.pdf'' (JsError ''Connection error.'') = Inr r"
      by blast
    from fallback_keyword_table[where h = "utcHost 1710894600000" and fileName = "''medical_appointment_confirmation.pdf''" and error = "JsError ''Connection error.''"
        and r = r, THEN conjunct2, THEN mp, OF r]
    have "category r = ''appointment''"
      using example_group_2 by blast
    with r show ?thesis
      by blast
  qed

  show "\<exists>r. generateEnhancedFallback (utcHost 1710894600000) ''bank_statement_december.pdf'' (JsError ''Connection error.'') = Inr r
          \<and> category r = ''bill''"
  proof -
    from example_conditions have "quotaTestReturns (JsError ''Connection error.'')
        \<and> (reminderInRange (utcHost 1710894600000)
            \<or> \<not> mentions ''bank_statement_december.pdf'' [''council'', ''tax'', ''bill'', ''invoice''])"
      by blast
    from fallback_keyword_table[where h = "utcHost 1710894600000" and fileName = "''bank_statement_december.pdf''" and error = "JsError ''Connection error.''",
        THEN conjunct1, THEN mp, OF this]
    obtain r where r: "generateEnhancedFallback (utcHost 1710894600000) ''bank_statement_december.pdf'' (JsError ''Connection error.'') = Inr r"
      by blast
    from fallback_keyword_table[where h = "utcHost 1710894600000" and fileName = "''bank_statement_december.pdf''" and error = "JsError ''Connection error.''"
        and r = r, THEN conjunct2, THEN mp, OF r]
    have "category r = ''bill''"
      using example_group_3 by blast
    with r show ?thesis
      by blast
  qed

  show "\<exists>r. generateEnhancedFallback (utcHost 1710894600000) ''insurance_policy_renewal.pdf'' (JsError ''Connection error.'') = Inr r
          \<and> category r = ''insurance''"
  proof -
    from example_conditions have "quotaTestReturns (JsError ''Connection error.'')
        \<and> (reminderInRange (utcHost 1710894600000)
            \<or> \<not> mentions ''insurance_policy_renewal.pdf'' [''council'', ''tax'', ''bill'', ''invoice''])"
      by blast
    from fallback_keyword_table[where h = "utcHost 1710894600000" and fileName = "''insurance_policy_renewal.pdf''" and error = "JsError ''Connection error.''",
        THEN conjunct1, THEN mp, OF this]
    obtain r where r: "generateEnhancedFallback (utcHost 1710894600000) ''insurance_policy_renewal.pdf'' (JsError ''Connection error.'') = Inr r"
      by blast
    from fallback_keyword_table[where h = "utcHost 1710894600000" and fileName = "''insurance_policy_renewal.pdf''" and error = "JsError ''Connection error.''"
        and r = r, THEN conjunct2, THEN mp, OF r]
    have "category r = ''insurance''"
      using example_group_4 by blast
    with r show ?thesis
      by blast
  qed

  show "\<exists>r. generateEnhancedFallback (utcHost 1710894600000) ''nhs_letter.jpg'' (JsError ''Connection error.'') = Inr r
          \<and> category r = ''nhs''"
  proof -
    from example_conditions have "quotaTestReturns (JsError ''Connection error.'')
        \<and> (reminderInRange (utcHost 1710894600000)
            \<or> \<not> mentions ''nhs_letter.jpg'' [''council'', ''tax'', ''bill'', ''invoice''])"
      by blast
    from fallback_keyword_table[where h = "utcHost 1710894600000" and fileName = "''nhs_letter.jpg''" and error = "JsError ''Connection error.''",
        THEN conjunct1, THEN mp, OF this]
    obtain r where r: "generateEnhancedFallback (utcHost 1710894600000) ''nhs_letter.jpg'' (JsError ''Connection error.'') = Inr r"
      by blast
    from fallback_keyword_table[where h = "utcHost 1710894600000" and fileName = "''nhs_letter.jpg''" and error = "JsError ''Connection error.''"
        and r = r, THEN conjunct2, THEN mp, OF r]
    have "category r = ''nhs''"
      using example_group_5 by blast
    with r show ?thesis
      by blast
  qed

  show "\<exists>r. generateEnhancedFallback (utcHost 1710894600000) ''dvla_reminder.png'' (JsError ''Connection error.'') = Inr r
          \<and> category r = ''government''"
  proof -
    from example_conditions have "quotaTestReturns (JsError ''Connection error.'')
        \<and> (reminderInRange (utcHost 1710894600000)
            \<or> \<not> mentions ''dvla_reminder.png'' [''council'', ''tax'', ''bill'', ''invoice''])"
      by blast
    from fallback_keyword_table[where h = "utcHost 1710894600000" and fileName = "''dvla_reminder.png''" and error = "JsError ''Connection error.''",
        THEN conjunct1, THEN mp, OF this]
    obtain r where r: "generateEnhancedFallback (utcHost 1710894600000) ''dvla_reminder.png'' (JsError ''Connection error.'') = Inr r"
      by blast
    from fallback_keyword_table[where h = "utcHost 1710894600000" and fileName = "''dvla_reminder.png''" and error = "JsError ''Connection error.''"
        and r = r, THEN conjunct2, THEN mp, OF r]
    have "category r = ''government''"
      using example_group_6 by blast
    with r show ?thesis
      by blast
  qed

  show "\<exists>r. generateEnhancedFallback (utcHost 1710894600000) ''train_ticket_ukraine.pdf'' (JsError ''Connection error.'') = Inr r
          \<and> category r = ''personal''"
  proof -
    from example_conditions have "quotaTestReturns (JsError ''Connection error.'')
        \<and> (reminderInRange (utcHost 1710894600000)
            \<or> \<not> mentions ''train_ticket_ukraine.pdf'' [''council'', ''tax'', ''bill'', ''invoice''])"
      by blast
    from fallback_keyword_table[where h = "utcHost 1710894600000" and fileName = "''train_ticket_ukraine.pdf''" and error = "JsError ''Connection error.''",
        THEN conjunct1, THEN mp, OF this]
    obtain r where r: "generateEnhancedFallback (utcHost 1710894600000) ''train_ticket_ukraine.pdf'' (JsError ''Connection error.'') = Inr r"
      by blast
    from fallback_keyword_table[where h = "utcHost 1710894600000" and fileName = "''train_ticket_ukraine.pdf''" and error = "JsError ''Connection error.''"
        and r = r, THEN conjunct2, THEN mp, OF r]
    have "category r = ''personal''"
      using example_group_7 by blast
    with r show ?thesis
      by blast
  qed

qed


text \<open>
  The claim as stated fails for a name with keywords of two groups, which follows the
  first of them: \<^verbatim>\<open>health_insurance_claim.pdf\<close> contains \<open>health\<close> and is classified as
  \<open>insurance\<close>, not as \<open>nhs\<close>.
\<close>

theorem fallback_keyword_table_counterexample:
  "mentions ''health_insurance_claim.pdf'' [''nhs'', ''health'']
   \<and> generateEnhancedFallback (utcHost 1710894600000) ''health_insurance_claim.pdf''
        (JsError ''Connection error.'')
      = Inr \<lparr>title = JStr ''Insurance Document - health_insurance_claim'',
              summary = JStr ''Insurance policy, claim, or coverage document. Review policy details, coverage limits, renewal dates, and any required actions. (Detailed AI analysis failed - document processed based on filename)'',
              category = ''insurance'', categories = [''insurance''], customCategories = [],
              reminderDate = JUndefined,
              extractedText = fallbackText ''health_insurance_claim.pdf'' ''insurance''\<rparr>
   \<and> ''insurance'' \<noteq> ''nhs''"
  by code_simp

section \<open>The document analyzer\<close>

lemma validateCategory_enum: "validateCategory v \<in> set categories_enum"
  by (cases v) (simp_all add: categories_enum_def)

lemma validateCategory_nonempty: "validateCategory v \<noteq> []"
  by (cases v) (auto simp: categories_enum_def)

lemma fromAnalysis_category:
  assumes "fromAnalysis a dt ds nr tx = Inr r"
  shows "category r \<in> set categories_enum"
  using assms validateCategory_enum validateCategory_nonempty
  by (auto simp: fromAnalysis_def andThen_def Let_def split: sum.splits)

lemma pdfViaImage_category:
  assumes "pdfViaImage w filePath fileName = Inr r"
  shows "category r \<in> set categories_enum"
  using assms fromAnalysis_category
  by (auto simp: pdfViaImage_def andThen_def Let_def split: sum.splits option.splits if_splits)

lemma pdfByFilename_category:
  assumes "pdfByFilename w h fileName = Inr r"
  shows "category r \<in> set categories_enum"
  using assms fromAnalysis_category
  by (auto simp: pdfByFilename_def andThen_def split: sum.splits)

lemma imageAnalysis_category:
  assumes "imageAnalysis w filePath fileName ext = Inr r"
  shows "category r \<in> set categories_enum"
  using assms fromAnalysis_category
  by (auto simp: imageAnalysis_def andThen_def Let_def split: sum.splits)

lemma analyzeAttempt_category:
  assumes "analyzeAttempt w h filePath fileName = Inr r"
  shows "category r \<in> set categories_enum"
  using assms pdfViaImage_category pdfByFilename_category imageAnalysis_category
  by (auto simp: analyzeAttempt_def tryCatch_def Let_def split: sum.splits if_splits)

lemma analyzeDocument_cases:
  "analyzeDocument w h filePath fileName =
     (case analyzeAttempt w h filePath fileName of
        Inl e \<Rightarrow> generateEnhancedFallback h fileName e
      | Inr r \<Rightarrow> Inr r)"
  by (simp add: analyzeDocument_def tryCatch_def)

lemma generateEnhancedFallback_category:
  assumes "generateEnhancedFallback h fileName error = Inr r"
  shows "category r \<in> set categories_enum"
  using fallback_conforms[OF assms] by (simp add: conformsToInterface_def)

lemma analyzeDocument_category:
  assumes "analyzeDocument w h filePath fileName = Inr r"
  shows "category r \<in> set categories_enum"
  using assms analyzeAttempt_category[of w h filePath fileName]
    generateEnhancedFallback_category[of h fileName]
  by (auto simp: analyzeDocument_cases split: sum.splits)

text \<open>
  What the \<open>try\<close> block throws is thrown by one of the outside calls, or is an \<open>Error\<close>
  with a string message that the block or the language raises.
\<close>

lemma getProp_throws:
  assumes "getProp v name = Inl e"
  shows "\<exists>message. e = JsError message"
  using assms by (cases v) auto

lemma fromAnalysis_throws:
  assumes "fromAnalysis a dt ds nr tx = Inl e"
  shows "\<exists>message. e = JsError message"
  using assms getProp_throws
  by (auto simp: fromAnalysis_def andThen_def Let_def split: sum.splits)

lemma pdfViaImage_throws_origin:
  assumes "pdfViaImage w filePath fileName = Inl e"
  shows "worldThrows w e \<or> (\<exists>message. e = JsError message)"
  using assms fromAnalysis_throws
  by (auto simp: pdfViaImage_def andThen_def Let_def worldThrows_def
      split: sum.splits option.splits if_splits)

lemma pdfByFilename_throws_origin:
  assumes "pdfByFilename w h fileName = Inl e"
  shows "worldThrows w e \<or> (\<exists>message. e = JsError message)"
  using assms fromAnalysis_throws
  by (auto simp: pdfByFilename_def andThen_def toISODate_def worldThrows_def
      split: sum.splits option.splits)

lemma imageAnalysis_throws_origin:
  assumes "imageAnalysis w filePath fileName ext = Inl e"
  shows "worldThrows w e \<or> (\<exists>message. e = JsError message)"
  using assms fromAnalysis_throws
  by (auto simp: imageAnalysis_def andThen_def Let_def worldThrows_def split: sum.splits)

lemma analyzeAttempt_throws_origin:
  assumes "analyzeAttempt w h filePath fileName = Inl e"
  shows "worldThrows w e \<or> (\<exists>message. e = JsError message)"
  using assms pdfByFilename_throws_origin imageAnalysis_throws_origin
  by (auto simp: analyzeAttempt_def tryCatch_def Let_def split: sum.splits if_splits)

lemma quotaTestReturns_JsError: "quotaTestReturns (JsError message)"
  by (simp add: quotaTestReturns_def)

lemma analyzeDocument_returns:
  assumes "\<forall>e. worldThrows w e \<longrightarrow> quotaTestReturns e"
    and "reminderInRange h"
  shows "\<exists>r. analyzeDocument w h filePath fileName = Inr r"
proof (cases "analyzeAttempt w h filePath fileName")
  case (Inl e)
  from analyzeAttempt_throws_origin[OF Inl] assms(1) have "quotaTestReturns e"
    using quotaTestReturns_JsError by blast
  from generateEnhancedFallback_returns[OF this, of h fileName] assms(2) Inl show ?thesis
    by (simp add: analyzeDocument_cases)
next
  case (Inr r)
  then show ?thesis
    by (simp add: analyzeDocument_cases)
qed

text \<open>
  C7. \<open>validateCategory\<close> keeps a string that is one of the seven category names and
  returns \<open>personal\<close> for every other string (and for every value that is not a string).
  The category of every result \<open>analyzeDocument\<close> returns is one of the seven, and it
  returns a result whenever the fallback classifier can test every error the outside
  throws and the reminder date is a date.
\<close>

theorem validateCategory_closes_enum:
  "set categories_enum
     = {''bill'', ''appointment'', ''personal'', ''promotional'', ''government'', ''insurance'', ''nhs''}
   \<and> validateCategory (JStr c) = (if c \<in> set categories_enum then c else ''personal'')
   \<and> validateCategory v \<in> set categories_enum
   \<and> (analyzeDocument w h filePath fileName = Inr r \<longrightarrow> category r \<in> set categories_enum)
   \<and> ((\<forall>e. worldThrows w e \<longrightarrow> quotaTestReturns e) \<and> reminderInRange h
        \<longrightarrow> (\<exists>r. analyzeDocument w h filePath fileName = Inr r
                  \<and> category r \<in> set categories_enum))"
proof (intro conjI impI)
  show "set categories_enum
     = {''bill'', ''appointment'', ''personal'', ''promotional'', ''government'', ''insurance'', ''nhs''}"
    by (auto simp: categories_enum_def)
  show "validateCategory (JStr c) = (if c \<in> set categories_enum then c else ''personal'')"
    by simp
  show "validateCategory v \<in> set categories_enum"
    by (rule validateCategory_enum)
next
  assume "analyzeDocument w h filePath fileName = Inr r"
  then show "category r \<in> set categories_enum"
    by (rule analyzeDocument_category)
next
  assume a: "(\<forall>e. worldThrows w e \<longrightarrow> quotaTestReturns e) \<and> reminderInRange h"
  then obtain r where r: "analyzeDocument w h filePath fileName = Inr r"
    using analyzeDocument_returns[of w h filePath fileName] by blast
  with analyzeDocument_category[OF r] show "\<exists>r. analyzeDocument w h filePath fileName = Inr r
                  \<and> category r \<in> set categories_enum"
    by blast
qed

lemma quotaWorld_throws:
  "(\<forall>e. worldThrows quotaWorld e \<longrightarrow> quotaTestReturns e) \<and> reminderInRange (utcHost 1710894600000)"
proof
  show "\<forall>e. worldThrows quotaWorld e \<longrightarrow> quotaTestReturns e"
    by (auto simp: worldThrows_def quotaWorld_def quotaTestReturns_def)
  show "reminderInRange (utcHost 1710894600000)"
    by code_simp
qed

lemma quotaWorld_png_result:
  "analyzeDocument quotaWorld (utcHost 1710894600000) ''uploads/file-1710894600000.png'' ''scan.png''
     = Inr \<lparr>title = JStr ''Document - scan'',
             summary = JStr ''Document uploaded and categorized based on filename. AI analysis will provide detailed content extraction once service is available. (AI analysis temporarily unavailable due to quota limits)'',
             category = ''personal'', categories = [''personal''], customCategories = [],
             reminderDate = JUndefined,
             extractedText = fallbackText ''scan.png'' ''personal''\<rparr>"
  by code_simp

theorem validateCategory_closes_enum_witness:
  "(\<exists>r. analyzeDocument quotaWorld (utcHost 1710894600000) ''uploads/file-1710894600000.png''
           ''scan.png'' = Inr r
        \<and> category r \<in> set categories_enum)
   \<and> ''personal'' \<in> set categories_enum"
proof
  show "\<exists>r. analyzeDocument quotaWorld (utcHost 1710894600000) ''uploads/file-1710894600000.png''
           ''scan.png'' = Inr r
        \<and> category r \<in> set categories_enum"
    by (rule validateCategory_closes_enum[where w = quotaWorld and h = "utcHost 1710894600000",
          THEN conjunct2, THEN conjunct2, THEN conjunct2, THEN conjunct2, THEN mp,
          OF quotaWorld_throws])
  from validateCategory_closes_enum[where w = quotaWorld and h = "utcHost 1710894600000"
      and filePath = "''uploads/file-1710894600000.png''" and fileName = "''scan.png''",
      THEN conjunct2, THEN conjunct2, THEN conjunct2, THEN conjunct1, THEN mp,
      OF quotaWorld_png_result]
  show "''personal'' \<in> set categories_enum"
    by simp
qed

text \<open>
  In the image branch every failure reaches the fallback classifier: what reading the
  file, the OCR call, the classification call or the parsing of its answer throws is the
  error the classifier is given.
\<close>

lemma imageAnalysis_read_throws:
  assumes "readFileSync w filePath = Inl e"
  shows "imageAnalysis w filePath fileName ext = Inl e"
  using assms by (simp add: imageAnalysis_def andThen_def)

lemma imageAnalysis_ocr_throws:
  assumes "readFileSync w filePath = Inr b"
    and "chatCompletion w (ImageOcr (if ext = ''.png'' then ''image/png'' else ''image/jpeg'') b fileName) = Inl e"
  shows "imageAnalysis w filePath fileName ext = Inl e"
  using assms by (simp add: imageAnalysis_def andThen_def Let_def)

lemma imageAnalysis_classification_throws:
  assumes "readFileSync w filePath = Inr b"
    and "chatCompletion w (ImageOcr (if ext = ''.png'' then ''image/png'' else ''image/jpeg'') b fileName) = Inr ocr"
    and "chatCompletion w (ImageAnalysis fileName (case ocr of None \<Rightarrow> [] | Some content \<Rightarrow> trim content)) = Inl e"
  shows "imageAnalysis w filePath fileName ext = Inl e"
  using assms by (simp add: imageAnalysis_def andThen_def Let_def)

lemma imageAnalysis_parse_throws:
  assumes "readFileSync w filePath = Inr b"
    and "chatCompletion w (ImageOcr (if ext = ''.png'' then ''image/png'' else ''image/jpeg'') b fileName) = Inr ocr"
    and "chatCompletion w (ImageAnalysis fileName (case ocr of None \<Rightarrow> [] | Some content \<Rightarrow> trim content)) = Inr answer"
    and "jsonParse w (contentOr answer ''{}'') = Inl e"
  shows "imageAnalysis w filePath fileName ext = Inl e"
  using assms by (simp add: imageAnalysis_def andThen_def Let_def)

lemma analyzeDocument_image:
  assumes "toLowerCase (extname w fileName) \<noteq> ''.pdf''"
    and "imageAnalysis w filePath fileName (toLowerCase (extname w fileName)) = Inl e"
  shows "analyzeDocument w h filePath fileName = generateEnhancedFallback h fileName e"
  using assms by (simp add: analyzeDocument_cases analyzeAttempt_def Let_def)

text \<open>
  In the PDF branch the inner \<open>catch\<close> receives what the conversion throws and also
  what the OCR call and the classification call on the converted page throw; the fallback
  classifier is reached only when the classification call on the file name fails as well.
\<close>

lemma pdfViaImage_throws:
  assumes "convertPDF w filePath = Inl e
           \<or> (\<exists>b. convertPDF w filePath = Inr (Some b) \<and> b \<noteq> [] \<and> chatCompletion w (PdfOcr b) = Inl e)"
  shows "pdfViaImage w filePath fileName = Inl e"
  using assms by (auto simp: pdfViaImage_def andThen_def)

lemma analyzeDocument_pdf:
  assumes "toLowerCase (extname w fileName) = ''.pdf''"
    and "pdfViaImage w filePath fileName = Inl e1"
  shows "analyzeDocument w h filePath fileName =
     (case pdfByFilename w h fileName of
        Inl e \<Rightarrow> generateEnhancedFallback h fileName e
      | Inr r \<Rightarrow> Inr r)"
  using assms by (simp add: analyzeDocument_cases analyzeAttempt_def Let_def tryCatch_def)

text \<open>
  C2 fails for a PDF. The page converts, the OCR call on it is refused for lack of quota,
  and the classification call on the file name answers. The refusal is caught by the inner
  \<open>catch\<close>, written for a failed conversion, and the result is the answer of the second
  call with the text about a failed conversion: not the fallback classifier's result, and
  with no word about the quota in its summary. The claim asks for the fallback classifier's
  result for the file name and the error, the third equation. For an image the same refusal
  does reach the fallback classifier, the fourth equation.
\<close>

theorem pdf_quota_error_skips_fallback:
  "convertPDF pdfOcrFailsWorld ''uploads/file-1710894600000.pdf'' = Inr (Some ''/9j/4AAQSkZJRg'')
   \<and> chatCompletion pdfOcrFailsWorld (PdfOcr ''/9j/4AAQSkZJRg'')
     = Inl (JsError ''429 You exceeded your current quota'')
   \<and> analyzeDocument pdfOcrFailsWorld (utcHost 1710894600000) ''uploads/file-1710894600000.pdf''
        ''council_tax.pdf''
     = Inr \<lparr>title = JStr ''Council tax'',
            summary = JStr ''PDF document analyzed based on filename.'',
            category = ''bill'', categories = [''bill''], customCategories = [],
            reminderDate = JNull, extractedText = pdfFailedText ''council_tax.pdf''\<rparr>
   \<and> generateEnhancedFallback (utcHost 1710894600000) ''council_tax.pdf''
        (JsError ''429 You exceeded your current quota'')
     = Inr \<lparr>title = JStr ''Bill/Tax Document - council_tax'',
            summary = JStr ''Billing or tax document. Review payment details, due dates, and account information. Set reminder for payment if needed. (AI analysis temporarily unavailable due to quota limits)'',
            category = ''bill'', categories = [''bill''], customCategories = [],
            reminderDate = JStr ''2024-04-03'',
            extractedText = fallbackText ''council_tax.pdf'' ''bill''\<rparr>
   \<and> analyzeDocument quotaWorld (utcHost 1710894600000) ''uploads/file-1710894600000.png''
        ''council_tax.png''
     = Inr \<lparr>title = JStr ''Bill/Tax Document - council_tax'',
            summary = JStr ''Billing or tax document. Review payment details, due dates, and account information. Set reminder for payment if needed. (AI analysis temporarily unavailable due to quota limits)'',
            category = ''bill'', categories = [''bill''], customCategories = [],
            reminderDate = JStr ''2024-04-03'',
            extractedText = fallbackText ''council_tax.png'' ''bill''\<rparr>"
  by code_simp

text \<open>
  The \<open>catch\<close> block itself can throw. Its test of the error calls \<open>includes\<close> on the
  message; when the thrown \<open>Error\<close> carries an object there, the call throws a
  \<open>TypeError\<close>, which leaves \<open>analyzeDocument\<close>. The upload route answers 500.
\<close>

lemma analyzeDocument_handler_throws:
  "analyzeDocument objectMessageWorld (utcHost 1710894600000) ''uploads/file-1710894600000.png''
        ''scan.png''
     = Inl (JsError ''error.message.includes is not a function'')
   \<and> uploadRoute objectMessageWorld deliveringWorld (utcHost 1710894600000) 1710894600123
        (TokenFor ''google_alice'') (Some exampleUpload) exampleDb
     = ((500, ErrorBody ''Failed to create mail item''), exampleDb, [])"
  by code_simp

section \<open>The OAuth state map\<close>

lemma mapGet_mapDelete: "mapGet k (mapDelete k' m) = (if k = k' then None else mapGet k m)"
  by (induction m) (auto simp: mapGet_def mapDelete_def)

lemma map_of_overwrite:
  "map_of (map (\<lambda>e. if fst e = k' then (k', v) else e) m) k
     = (if k = k' then (case map_of m k' of None \<Rightarrow> None | Some old \<Rightarrow> Some v) else map_of m k)"
  by (induction m) (auto split: option.splits)

lemma map_of_append_fresh:
  assumes "map_of m k' = None"
  shows "map_of (m @ [(k', v)]) k = (if k = k' then Some v else map_of m k)"
  using assms by (induction m) auto

lemma mapGet_mapSet: "mapGet k (mapSet k' v m) = (if k = k' then Some v else mapGet k m)"
proof (cases "k' \<in> set (map fst m)")
  case True
  then have "map_of m k' \<noteq> None"
    by (simp add: map_of_eq_None_iff)
  then obtain old where "map_of m k' = Some old"
    by blast
  moreover from True have "mapSet k' v m = map (\<lambda>e. if fst e = k' then (k', v) else e) m"
    by (simp only: mapSet_def if_True)
  ultimately show ?thesis
    by (simp add: mapGet_def map_of_overwrite)
next
  case False
  then have "map_of m k' = None"
    by (simp add: map_of_eq_None_iff)
  moreover from False have "mapSet k' v m = m @ [(k', v)]"
    by (simp only: mapSet_def if_False)
  ultimately show ?thesis
    by (simp only: mapGet_def map_of_append_fresh)
qed

lemma mapInv_mapDelete: "mapInv m \<Longrightarrow> mapInv (mapDelete k m)"
  unfolding mapInv_def mapDelete_def by (rule distinct_map_filter)

lemma fst_overwrite: "map fst (map (\<lambda>e. if fst e = k then (k, v) else e) m) = map fst m"
  by (induction m) simp_all

lemma mapInv_mapSet:
  assumes "mapInv m"
  shows "mapInv (mapSet k v m)"
proof (cases "k \<in> set (map fst m)")
  case True
  then have "mapSet k v m = map (\<lambda>e. if fst e = k then (k, v) else e) m"
    by (simp only: mapSet_def if_True)
  then have "map fst (mapSet k v m) = map fst m"
    by (simp only: fst_overwrite)
  with assms show ?thesis
    by (simp only: mapInv_def)
next
  case False
  then have "mapSet k v m = m @ [(k, v)]"
    by (simp only: mapSet_def if_False)
  with assms False show ?thesis
    by (simp add: mapInv_def)
qed

lemma mapInv_sweepLoop: "mapInv m \<Longrightarrow> mapInv (sweepLoop c entries m)"
  by (induction c entries m rule: sweepLoop.induct) (simp_all add: mapInv_mapDelete)

lemma mapGet_sweepLoop:
  "mapGet k (sweepLoop c entries m)
     = (if \<exists>ts. (k, ts) \<in> set entries \<and> ts < c then None else mapGet k m)"
  by (induction c entries m rule: sweepLoop.induct) (auto simp: mapGet_mapDelete)

lemma mapGet_entry: "mapInv m \<Longrightarrow> ((k, ts) \<in> set m) = (mapGet k m = Some ts)"
  by (simp add: mapInv_def mapGet_def)

lemma mapGet_sweep_all:
  assumes "mapInv m"
  shows "mapGet k (sweepLoop c m m)
     = (case mapGet k m of None \<Rightarrow> None | Some ts \<Rightarrow> if ts < c then None else Some ts)"
  using mapGet_entry[OF assms, of k]
  by (auto simp: mapGet_sweepLoop split: option.splits)

lemma verify_consumes: "mapGet s (snd (verifyOAuthState s t m)) = None"
  by (auto simp: verifyOAuthState_def mapGet_mapDelete Let_def split: option.splits)

lemma verify_absent: "mapGet s m = None \<Longrightarrow> verifyOAuthState s t m = (False, m)"
  by (simp add: verifyOAuthState_def)

lemma verify_keeps_absent:
  "mapGet s m = None \<Longrightarrow> mapGet s (snd (verifyOAuthState s' t m)) = None"
  by (auto simp: verifyOAuthState_def mapGet_mapDelete Let_def split: option.splits)

lemma generate_keeps_absent:
  assumes "mapGet s m = None" and "fst (generateOAuthState rnd t1 t2 t3 m) \<noteq> s"
  shows "mapGet s (snd (generateOAuthState rnd t1 t2 t3 m)) = None"
  using assms by (auto simp: generateOAuthState_def Let_def mapGet_sweepLoop mapGet_mapSet)

lemma acceptances_Cons:
  "acceptances s (cr # history)
     = (if (case fst cr of Verify s' t \<Rightarrow> s' = s | Generate rnd t1 t2 t3 \<Rightarrow> False)
           \<and> snd cr = Verified True then 1 else 0) + acceptances s history"
  by (simp add: acceptances_def)

lemma issues_Cons: "issues s (cr # history) = (snd cr = State s \<or> issues s history)"
  by (auto simp: issues_def)

lemma absent_never_accepted:
  assumes "mapGet s m = None" and "\<not> issues s (oauthRun calls m)"
  shows "acceptances s (oauthRun calls m) = 0"
  using assms
proof (induction calls arbitrary: m)
  case Nil
  then show ?case by (simp add: acceptances_def)
next
  case (Cons c calls)
  show ?case
  proof (cases c)
    case (Generate rnd t1 t2 t3)
    obtain state m' where g: "generateOAuthState rnd t1 t2 t3 m = (state, m')"
      by (cases "generateOAuthState rnd t1 t2 t3 m")
    from Cons.prems(2) Generate g have ne: "state \<noteq> s" and rest: "\<not> issues s (oauthRun calls m')"
      by (auto simp: issues_Cons)
    from generate_keeps_absent[OF Cons.prems(1), of rnd t1 t2 t3] g ne
    have "mapGet s m' = None" by simp
    from Cons.IH[OF this rest] Generate g show ?thesis
      by (simp add: acceptances_Cons)
  next
    case (Verify s' t)
    obtain ok m' where v: "verifyOAuthState s' t m = (ok, m')"
      by (cases "verifyOAuthState s' t m")
    from Cons.prems(2) Verify v have rest: "\<not> issues s (oauthRun calls m')"
      by (auto simp: issues_Cons)
    from verify_keeps_absent[OF Cons.prems(1), of s' t] v have absent: "mapGet s m' = None"
      by simp
    have "s' = s \<Longrightarrow> ok = False"
      using verify_absent[OF Cons.prems(1), of t] v by simp
    with Cons.IH[OF absent rest] Verify v show ?thesis
      by (auto simp: acceptances_Cons)
  qed
qed

lemma accepted_at_most_once:
  assumes "\<not> issues s (oauthRun calls m)"
  shows "acceptances s (oauthRun calls m) \<le> 1"
  using assms
proof (induction calls arbitrary: m)
  case Nil
  then show ?case by (simp add: acceptances_def)
next
  case (Cons c calls)
  show ?case
  proof (cases c)
    case (Generate rnd t1 t2 t3)
    obtain state m' where g: "generateOAuthState rnd t1 t2 t3 m = (state, m')"
      by (cases "generateOAuthState rnd t1 t2 t3 m")
    from Cons.prems Generate g have rest: "\<not> issues s (oauthRun calls m')"
      by (auto simp: issues_Cons)
    from Cons.IH[OF rest] Generate g show ?thesis
      by (simp add: acceptances_Cons)
  next
    case (Verify s' t)
    obtain ok m' where v: "verifyOAuthState s' t m = (ok, m')"
      by (cases "verifyOAuthState s' t m")
    from Cons.prems Verify v have rest: "\<not> issues s (oauthRun calls m')"
      by (auto simp: issues_Cons)
    show ?thesis
    proof (cases "s' = s")
      case True
      from verify_consumes[of s t m] v True have "mapGet s m' = None" by simp
      from absent_never_accepted[OF this rest] Verify v show ?thesis
        by (simp add: acceptances_Cons)
    next
      case False
      with Cons.IH[OF rest] Verify v show ?thesis
        by (simp add: acceptances_Cons)
    qed
  qed
qed


lemma verify_mapInv: "mapInv m \<Longrightarrow> mapInv (snd (verifyOAuthState s t m))"
  by (auto simp: verifyOAuthState_def Let_def mapInv_mapDelete split: option.splits)

lemma generate_state: "fst (generateOAuthState rnd t1 t2 t3 m) = rnd @ showInt 36 t1"
  by (simp add: generateOAuthState_def Let_def)

lemma generate_map:
  "snd (generateOAuthState rnd t1 t2 t3 m)
     = sweepLoop (t3 - 10 * 60 * 1000) (mapSet (rnd @ showInt 36 t1) t2 m)
         (mapSet (rnd @ showInt 36 t1) t2 m)"
  by (simp add: generateOAuthState_def Let_def)

text \<open>
  C9. On a map that holds every key once, \<open>generateOAuthState\<close> returns the new state
  and leaves the map with the new state inserted and without every entry whose timestamp
  is older than ten minutes at the time of the clean-up; the other entries stay. A
  verification consumes the state: after \<open>verifyOAuthState s\<close> the map has no entry
  for \<open>s\<close>, a verification of \<open>s\<close> right after it returns false, and in every history
  of calls that does not issue \<open>s\<close> again at most one verification of \<open>s\<close> returns true.
\<close>

theorem oauth_state_map:
  "(mapInv m \<longrightarrow>
      fst (generateOAuthState rnd t1 t2 t3 m) = rnd @ showInt 36 t1
    \<and> mapInv (snd (generateOAuthState rnd t1 t2 t3 m))
    \<and> mapGet (rnd @ showInt 36 t1) (mapSet (rnd @ showInt 36 t1) t2 m) = Some t2
    \<and> mapGet k (snd (generateOAuthState rnd t1 t2 t3 m))
        = (case mapGet k (mapSet (rnd @ showInt 36 t1) t2 m) of
             None \<Rightarrow> None
           | Some ts \<Rightarrow> if ts < t3 - 10 * 60 * 1000 then None else Some ts))
   \<and> (mapInv m \<longrightarrow> mapInv (snd (verifyOAuthState s t m)))
   \<and> mapGet s (snd (verifyOAuthState s t m)) = None
   \<and> fst (verifyOAuthState s t' (snd (verifyOAuthState s t m))) = False
   \<and> (\<not> issues s (oauthRun calls m) \<longrightarrow> acceptances s (oauthRun calls m) \<le> 1)"
proof (intro conjI impI)
  show "fst (generateOAuthState rnd t1 t2 t3 m) = rnd @ showInt 36 t1"
    by (rule generate_state)
next
  assume "mapInv m"
  then show "mapInv (snd (generateOAuthState rnd t1 t2 t3 m))"
    unfolding generate_map by (intro mapInv_sweepLoop mapInv_mapSet)
next
  show "mapGet (rnd @ showInt 36 t1) (mapSet (rnd @ showInt 36 t1) t2 m) = Some t2"
    by (simp add: mapGet_mapSet)
next
  assume "mapInv m"
  then have "mapInv (mapSet (rnd @ showInt 36 t1) t2 m)"
    by (rule mapInv_mapSet)
  then show "mapGet k (snd (generateOAuthState rnd t1 t2 t3 m))
        = (case mapGet k (mapSet (rnd @ showInt 36 t1) t2 m) of
             None \<Rightarrow> None
           | Some ts \<Rightarrow> if ts < t3 - 10 * 60 * 1000 then None else Some ts)"
    unfolding generate_map by (rule mapGet_sweep_all)
next
  assume "mapInv m"
  then show "mapInv (snd (verifyOAuthState s t m))"
    by (rule verify_mapInv)
next
  show "mapGet s (snd (verifyOAuthState s t m)) = None"
    by (rule verify_consumes)
next
  show "fst (verifyOAuthState s t' (snd (verifyOAuthState s t m))) = False"
    using verify_absent[OF verify_consumes[of s t m], of t'] by simp
next
  assume "\<not> issues s (oauthRun calls m)"
  then show "acceptances s (oauthRun calls m) \<le> 1"
    by (rule accepted_at_most_once)
qed

lemma oauth_example_inv: "mapInv [(''stale'', 1710893999999), (''fresh'', 1710894000000)]"
  by code_simp

lemma oauth_example_lookup:
  "(case mapGet ''stale'' (mapSet (''k3j9x'' @ showInt 36 1710894600000) 1710894600000
            [(''stale'', 1710893999999), (''fresh'', 1710894000000)]) of
      None \<Rightarrow> None
    | Some ts \<Rightarrow> if ts < 1710894600000 - 10 * 60 * 1000 then None else Some ts) = None
   \<and> (case mapGet ''fresh'' (mapSet (''k3j9x'' @ showInt 36 1710894600000) 1710894600000
            [(''stale'', 1710893999999), (''fresh'', 1710894000000)]) of
      None \<Rightarrow> None
    | Some ts \<Rightarrow> if ts < 1710894600000 - 10 * 60 * 1000 then None else Some ts)
     = Some 1710894000000"
  by code_simp

lemma oauth_example_state: "''k3j9x'' @ showInt 36 1710894600000 = ''k3j9xltz2gy80''"
  by code_simp

lemma oauth_example_history:
  "\<not> issues ''k3j9xltz2gy80''
       (oauthRun [Verify ''k3j9xltz2gy80'' 1710894601000, Verify ''k3j9xltz2gy80'' 1710894602000]
          [(''k3j9xltz2gy80'', 1710894600000)])
   \<and> fst (verifyOAuthState ''k3j9xltz2gy80'' 1710894601000 [(''k3j9xltz2gy80'', 1710894600000)])"
  by code_simp

theorem oauth_state_map_witness:
  "fst (generateOAuthState ''k3j9x'' 1710894600000 1710894600000 1710894600000
          [(''stale'', 1710893999999), (''fresh'', 1710894000000)]) = ''k3j9xltz2gy80''
   \<and> mapGet ''stale'' (snd (generateOAuthState ''k3j9x'' 1710894600000 1710894600000 1710894600000
          [(''stale'', 1710893999999), (''fresh'', 1710894000000)])) = None
   \<and> mapGet ''fresh'' (snd (generateOAuthState ''k3j9x'' 1710894600000 1710894600000 1710894600000
          [(''stale'', 1710893999999), (''fresh'', 1710894000000)])) = Some 1710894000000
   \<and> fst (verifyOAuthState ''k3j9xltz2gy80'' 1710894601000 [(''k3j9xltz2gy80'', 1710894600000)])
   \<and> fst (verifyOAuthState ''k3j9xltz2gy80'' 1710894602000
        (snd (verifyOAuthState ''k3j9xltz2gy80'' 1710894601000
               [(''k3j9xltz2gy80'', 1710894600000)]))) = False
   \<and> acceptances ''k3j9xltz2gy80''
       (oauthRun [Verify ''k3j9xltz2gy80'' 1710894601000, Verify ''k3j9xltz2gy80'' 1710894602000]
          [(''k3j9xltz2gy80'', 1710894600000)]) \<le> 1"
proof -
  note g1 = oauth_state_map[where m = "[(''stale'', 1710893999999), (''fresh'', 1710894000000)]"
      and rnd = "''k3j9x''" and ?t1.0 = 1710894600000 and ?t2.0 = 1710894600000
      and ?t3.0 = 1710894600000 and k = "''stale''", THEN conjunct1, THEN mp, OF oauth_example_inv]
  note g2 = oauth_state_map[where m = "[(''stale'', 1710893999999), (''fresh'', 1710894000000)]"
      and rnd = "''k3j9x''" and ?t1.0 = 1710894600000 and ?t2.0 = 1710894600000
      and ?t3.0 = 1710894600000 and k = "''fresh''", THEN conjunct1, THEN mp, OF oauth_example_inv]
  note v = oauth_state_map[where m = "[(''k3j9xltz2gy80'', 1710894600000)]"
      and s = "''k3j9xltz2gy80''" and t = 1710894601000 and t' = 1710894602000
      and calls = "[Verify ''k3j9xltz2gy80'' 1710894601000, Verify ''k3j9xltz2gy80'' 1710894602000]",
      THEN conjunct2, THEN conjunct2, THEN conjunct2]
  from g1 have a: "fst (generateOAuthState ''k3j9x'' 1710894600000 1710894600000 1710894600000
          [(''stale'', 1710893999999), (''fresh'', 1710894000000)]) = ''k3j9xltz2gy80''"
    unfolding oauth_example_state by (rule conjunct1)
  from g1 have b: "mapGet ''stale'' (snd (generateOAuthState ''k3j9x'' 1710894600000 1710894600000
          1710894600000 [(''stale'', 1710893999999), (''fresh'', 1710894000000)])) = None"
    using oauth_example_lookup by simp
  from g2 have c: "mapGet ''fresh'' (snd (generateOAuthState ''k3j9x'' 1710894600000 1710894600000
          1710894600000 [(''stale'', 1710893999999), (''fresh'', 1710894000000)]))
        = Some 1710894000000"
    using oauth_example_lookup by simp
  from v have d: "fst (verifyOAuthState ''k3j9xltz2gy80'' 1710894602000
        (snd (verifyOAuthState ''k3j9xltz2gy80'' 1710894601000
               [(''k3j9xltz2gy80'', 1710894600000)]))) = False"
    by (rule conjunct1)
  from v oauth_example_history have e: "acceptances ''k3j9xltz2gy80''
       (oauthRun [Verify ''k3j9xltz2gy80'' 1710894601000, Verify ''k3j9xltz2gy80'' 1710894602000]
          [(''k3j9xltz2gy80'', 1710894600000)]) \<le> 1"
    by blast
  from a b c d e oauth_example_history show ?thesis
    by blast
qed

section \<open>The storage layer and the mail-item routes\<close>

lemma set_orderByUploadDateDesc: "set (orderByUploadDateDesc rows) = set rows"
  by (simp add: orderByUploadDateDesc_def)

text \<open>The reading methods return rows of the requesting user only.\<close>

lemma getAllMailItems_scoped:
  assumes "r \<in> set (getAllMailItems userId db)"
  shows "mi_userId r = userId \<and> r \<in> set (mailItems db)"
  using assms by (simp add: getAllMailItems_def set_orderByUploadDateDesc)

lemma getMailItem_scoped:
  assumes "getMailItem itemId userId db = Some r"
  shows "mi_userId r = userId \<and> mi_id r = itemId \<and> r \<in> set (mailItems db)"
proof -
  from assms obtain rest where
    "filter (\<lambda>r. mi_id r = itemId \<and> mi_userId r = userId) (mailItems db) = r # rest"
    by (auto simp: getMailItem_def split: list.splits)
  then have "r \<in> set (filter (\<lambda>r. mi_id r = itemId \<and> mi_userId r = userId) (mailItems db))"
    by simp
  then show ?thesis by simp
qed

lemma searchMailItems_scoped:
  assumes "r \<in> set (searchMailItems ilike query userId db)"
  shows "mi_userId r = userId \<and> r \<in> set (mailItems db)"
  using assms by (simp add: searchMailItems_def Let_def set_orderByUploadDateDesc)

lemma getMailItemsByCategory_scoped:
  assumes "r \<in> set (getMailItemsByCategory cat userId db)"
  shows "mi_userId r = userId \<and> r \<in> set (mailItems db)"
  using assms by (simp add: getMailItemsByCategory_def set_orderByUploadDateDesc)

text \<open>The deleting methods leave the rows of every other user in place.\<close>

lemma deleteMailItem_frame:
  "filter (\<lambda>r. mi_userId r \<noteq> userId) (mailItems (snd (deleteMailItem itemId userId db)))
     = filter (\<lambda>r. mi_userId r \<noteq> userId) (mailItems db)"
proof -
  have "filter (\<lambda>r. mi_userId r \<noteq> userId)
           (filter (\<lambda>r. \<not> (mi_id r = itemId \<and> mi_userId r = userId)) rows)
        = filter (\<lambda>r. mi_userId r \<noteq> userId) rows" for rows
    by (induction rows) auto
  then show ?thesis
    by (simp add: deleteMailItem_def Let_def)
qed

lemma deleteAllMailItems_frame:
  "filter (\<lambda>r. mi_userId r \<noteq> userId) (mailItems (snd (deleteAllMailItems userId db)))
     = filter (\<lambda>r. mi_userId r \<noteq> userId) (mailItems db)"
  by (simp add: deleteAllMailItems_def)

text \<open>
  An update changes rows of the requesting user only, and returns a row of that user
  unless the update itself names another owner.
\<close>

lemma updateMailItem_frame:
  assumes "updateMailItem itemId userId updates db = Inr (result, db')"
  shows "length (mailItems db') = length (mailItems db)
       \<and> (\<forall>i < length (mailItems db).
             mi_userId (mailItems db ! i) \<noteq> userId \<longrightarrow> mailItems db' ! i = mailItems db ! i)"
  using assms by (auto simp: updateMailItem_def Let_def split: if_splits)

lemma mi_userId_applyUpdates:
  "mi_userId (applyUpdates updates r)
     = (case upd_userId updates of None \<Rightarrow> mi_userId r | Some v \<Rightarrow> v)"
  by (simp add: applyUpdates_def)

lemma updateMailItem_scoped:
  assumes "updateMailItem itemId userId updates db = Inr (Some r, db')"
    and "upd_userId updates = None"
  shows "mi_userId r = userId"
proof -
  from assms(1) obtain rest where
    "map (applyUpdates updates)
       (filter (\<lambda>r. mi_id r = itemId \<and> mi_userId r = userId) (mailItems db)) = r # rest"
    by (auto simp: updateMailItem_def Let_def split: if_splits list.splits)
  then obtain r0 where "r = applyUpdates updates r0"
    and "r0 \<in> set (filter (\<lambda>r. mi_id r = itemId \<and> mi_userId r = userId) (mailItems db))"
    by (metis (no_types, lifting) list.set_intros(1) image_iff list.set_map)
  with assms(2) show ?thesis
    by (simp add: mi_userId_applyUpdates)
qed


text \<open>
  Two requests the engine or the query builder refuses: an id outside the 32-bit range,
  and an update with no field. Both are answered with status 500.
\<close>

lemma refused_requests_answer_500:
  "getRoute (TokenFor ''google_alice'') (Some 4294967297) exampleDb
     = (500, ErrorBody ''Failed to fetch mail item'')
   \<and> deleteRoute (TokenFor ''google_alice'') (Some 4294967297) exampleDb
     = ((500, ErrorBody ''Failed to delete mail item''), exampleDb)
   \<and> patchRoute (TokenFor ''google_alice'') (Some 1) noUpdates exampleDb
     = ((500, ErrorBody ''Failed to update mail item''), exampleDb)"
  by code_simp

lemma search_routes_answer_500:
  "searchRoute query db = (500, ErrorBody ''Failed to search mail items'')
   \<and> categoryRoute cat db = (500, ErrorBody ''Failed to fetch mail items by category'')"
  by (simp add: searchRoute_def categoryRoute_def)

text \<open>
  C1 fails on the update path. Alice, authenticated, patches her own item 1 with the body
  \<^verbatim>\<open>{"userId": "google_bob"}\<close>. The \<open>WHERE\<close> clause selects her row, \<open>SET\<close> overwrites
  its owner, and the row that comes back carries Bob's user id; from then on Bob's list
  shows it, and Alice's does not. (The search and category routes return no rows at all:
  they answer 500.)
\<close>

theorem update_reassigns_owner:
  "patchRoute (TokenFor ''google_alice'') (Some 1)
       (noUpdates\<lparr>upd_userId := Some ''google_bob''\<rparr>) exampleDb
     = ((200, Item (exampleItem 1 ''google_bob'' ''Gas bill'' 1710000000000)),
        exampleDb\<lparr>mailItems := [exampleItem 1 ''google_bob'' ''Gas bill'' 1710000000000,
                                 exampleItem 2 ''google_bob'' ''Dentist'' 1710000100000]\<rparr>)
   \<and> mi_userId (exampleItem 1 ''google_bob'' ''Gas bill'' 1710000000000) \<noteq> ''google_alice''
   \<and> listRoute (TokenFor ''google_bob'')
        (snd (patchRoute (TokenFor ''google_alice'') (Some 1)
                (noUpdates\<lparr>upd_userId := Some ''google_bob''\<rparr>) exampleDb))
     = (200, Items [exampleItem 2 ''google_bob'' ''Dentist'' 1710000100000,
                    exampleItem 1 ''google_bob'' ''Gas bill'' 1710000000000])
   \<and> listRoute (TokenFor ''google_alice'')
        (snd (patchRoute (TokenFor ''google_alice'') (Some 1)
                (noUpdates\<lparr>upd_userId := Some ''google_bob''\<rparr>) exampleDb))
     = (200, Items [])
   \<and> searchRoute ''bill'' exampleDb = (500, ErrorBody ''Failed to search mail items'')
   \<and> categoryRoute ''bill'' exampleDb = (500, ErrorBody ''Failed to fetch mail items by category'')"
  by code_simp

section \<open>The notification service and the upload route\<close>

lemma sendLetterNotification_returns: "fst (sendLetterNotification mw user letter) = Inr ()"
  by (simp add: sendLetterNotification_def split: prod.splits sum.splits)

lemma sendLetterNotification_logs_failure:
  assumes "notificationAttempt mw user letter = (Inl e, console)"
  shows "snd (sendLetterNotification mw user letter)
           = console @ [''Failed to send letter notification email: '' @ errorMessage e]"
  using assms by (simp add: sendLetterNotification_def)

lemma notification_no_email:
  assumes "usr_email user = None \<or> usr_email user = Some []"
  shows "sendLetterNotification mw user letter
           = (Inr (), [''Cannot send email notification: user has no email address''])"
  using assms by (auto simp: sendLetterNotification_def notificationAttempt_def)

lemma notification_no_credentials:
  assumes "usr_email user = Some (c # cs)" and "createTransporter mw user = Inl e"
  shows "notificationAttempt mw user letter = (Inl e, [])"
  using assms by (simp add: notificationAttempt_def Let_def)

lemma notification_missing_file:
  assumes "usr_email user = Some (c # cs)" and "createTransporter mw user = Inr transporter"
    and "\<not> existsSync mw (pathJoin mw (cwd mw) (stripLeadingSlash (letter_imageUrl letter)))"
  shows "notificationAttempt mw user letter
           = (Inl (JsError (''File not found: '' @ letter_fileName letter)),
              [''File not found for email attachment: ''
                 @ pathJoin mw (cwd mw) (stripLeadingSlash (letter_imageUrl letter))])"
  using assms by (simp add: notificationAttempt_def Let_def)

lemma notification_smtp_failure:
  assumes "usr_email user = Some (c # cs)" and "createTransporter mw user = Inr transporter"
    and "existsSync mw (pathJoin mw (cwd mw) (stripLeadingSlash (letter_imageUrl letter)))"
    and "\<And>mail. sendMail mw transporter mail = Inl e"
  shows "notificationAttempt mw user letter = (Inl e, [])"
  using assms by (simp add: notificationAttempt_def Let_def)

lemma createTransporter_no_credentials:
  assumes "smtp_user (getEmailConfig mw user) = [] \<or> smtp_pass (getEmailConfig mw user) = []"
  shows "createTransporter mw user
     = Inl (JsError ''SMTP credentials not configured. Please configure email settings in your profile.'')"
  using assms by (auto simp: createTransporter_def Let_def)

lemma uploadRoute_response_independent:
  "fst (uploadRoute aw mw h dbNow cred file db) = fst (uploadRoute aw mw' h dbNow cred file db)
   \<and> fst (snd (uploadRoute aw mw h dbNow cred file db))
       = fst (snd (uploadRoute aw mw' h dbNow cred file db))"
  by (simp add: uploadRoute_def split: sum.splits option.splits prod.splits)

lemma authenticateToken_refusal:
  assumes "authenticateToken cred db = Inl (status, b)"
  shows "status = 401 \<or> status = 403"
  using assms by (auto simp: authenticateToken_def split: credential.splits option.splits)

lemma uploadRoute_row_persisted:
  assumes "uploadRoute aw mw h dbNow cred file db = ((201, Item item), db', console)"
  shows "mailItems db' = mailItems db @ [item] \<and> users db' = users db"
proof (cases "authenticateToken cred db")
  case (Inl answer)
  with assms authenticateToken_refusal[of cred db "fst answer" "snd answer"] show ?thesis
    by (simp add: uploadRoute_def)
next
  case (Inr user)
  with assms show ?thesis
    by (auto simp: uploadRoute_def createMailItem_def Let_def
        split: sum.splits option.splits prod.splits if_splits)
qed


text \<open>
  C8. \<open>sendLetterNotification\<close> always returns normally. A user without an email
  address only produces a console line; missing SMTP credentials, a missing attachment
  file and a failure of \<open>sendMail\<close> end the \<open>try\<close> block with an exception, which the
  \<open>catch\<close> turns into one more console line. The response of the upload route and the
  database it leaves do not depend on the notification's world, and after a 201 response
  the created row is in the table.
\<close>

theorem notification_never_raises:
  "fst (sendLetterNotification mw user letter) = Inr ()
   \<and> (usr_email user = None \<or> usr_email user = Some []
        \<longrightarrow> sendLetterNotification mw user letter
              = (Inr (), [''Cannot send email notification: user has no email address'']))
   \<and> (usr_email user = Some (c # cs)
        \<and> (smtp_user (getEmailConfig mw user) = [] \<or> smtp_pass (getEmailConfig mw user) = [])
        \<longrightarrow> sendLetterNotification mw user letter
              = (Inr (), [''Failed to send letter notification email: SMTP credentials not configured. Please configure email settings in your profile.'']))
   \<and> (usr_email user = Some (c # cs)
        \<and> createTransporter mw user = Inr transporter
        \<and> \<not> existsSync mw (pathJoin mw (cwd mw) (stripLeadingSlash (letter_imageUrl letter)))
        \<longrightarrow> sendLetterNotification mw user letter
              = (Inr (), [''File not found for email attachment: ''
                            @ pathJoin mw (cwd mw) (stripLeadingSlash (letter_imageUrl letter)),
                          ''Failed to send letter notification email: File not found: ''
                            @ letter_fileName letter]))
   \<and> (usr_email user = Some (c # cs)
        \<and> createTransporter mw user = Inr transporter
        \<and> existsSync mw (pathJoin mw (cwd mw) (stripLeadingSlash (letter_imageUrl letter)))
        \<and> (\<forall>mail. sendMail mw transporter mail = Inl e)
        \<longrightarrow> sendLetterNotification mw user letter
              = (Inr (), [''Failed to send letter notification email: '' @ errorMessage e]))
   \<and> fst (uploadRoute aw mw h dbNow cred file db) = fst (uploadRoute aw mw' h dbNow cred file db)
   \<and> fst (snd (uploadRoute aw mw h dbNow cred file db))
       = fst (snd (uploadRoute aw mw' h dbNow cred file db))
   \<and> (uploadRoute aw mw h dbNow cred file db = ((201, Item item), db', console)
        \<longrightarrow> mailItems db' = mailItems db @ [item])"
proof (intro conjI impI)
  show "fst (sendLetterNotification mw user letter) = Inr ()"
    by (rule sendLetterNotification_returns)
next
  assume "usr_email user = None \<or> usr_email user = Some []"
  then show "sendLetterNotification mw user letter
              = (Inr (), [''Cannot send email notification: user has no email address''])"
    by (rule notification_no_email)
next
  assume a: "usr_email user = Some (c # cs)
        \<and> (smtp_user (getEmailConfig mw user) = [] \<or> smtp_pass (getEmailConfig mw user) = [])"
  then have "createTransporter mw user
     = Inl (JsError ''SMTP credentials not configured. Please configure email settings in your profile.'')"
    using createTransporter_no_credentials by blast
  with a have "notificationAttempt mw user letter
     = (Inl (JsError ''SMTP credentials not configured. Please configure email settings in your profile.''), [])"
    using notification_no_credentials by blast
  then show "sendLetterNotification mw user letter
              = (Inr (), [''Failed to send letter notification email: SMTP credentials not configured. Please configure email settings in your profile.''])"
    by (simp add: sendLetterNotification_def)
next
  assume a: "usr_email user = Some (c # cs)
        \<and> createTransporter mw user = Inr transporter
        \<and> \<not> existsSync mw (pathJoin mw (cwd mw) (stripLeadingSlash (letter_imageUrl letter)))"
  then have "notificationAttempt mw user letter
           = (Inl (JsError (''File not found: '' @ letter_fileName letter)),
              [''File not found for email attachment: ''
                 @ pathJoin mw (cwd mw) (stripLeadingSlash (letter_imageUrl letter))])"
    using notification_missing_file by blast
  then show "sendLetterNotification mw user letter
              = (Inr (), [''File not found for email attachment: ''
                            @ pathJoin mw (cwd mw) (stripLeadingSlash (letter_imageUrl letter)),
                          ''Failed to send letter notification email: File not found: ''
                            @ letter_fileName letter])"
    by (simp add: sendLetterNotification_def)
next
  assume a: "usr_email user = Some (c # cs)
        \<and> createTransporter mw user = Inr transporter
        \<and> existsSync mw (pathJoin mw (cwd mw) (stripLeadingSlash (letter_imageUrl letter)))
        \<and> (\<forall>mail. sendMail mw transporter mail = Inl e)"
  then have "notificationAttempt mw user letter = (Inl e, [])"
    using notification_smtp_failure[of user c cs mw transporter letter e] by blast
  then show "sendLetterNotification mw user letter
              = (Inr (), [''Failed to send letter notification email: '' @ errorMessage e])"
    by (simp add: sendLetterNotification_def)
next
  show "fst (uploadRoute aw mw h dbNow cred file db) = fst (uploadRoute aw mw' h dbNow cred file db)"
    using uploadRoute_response_independent by blast
next
  show "fst (snd (uploadRoute aw mw h dbNow cred file db))
       = fst (snd (uploadRoute aw mw' h dbNow cred file db))"
    using uploadRoute_response_independent by blast
next
  assume "uploadRoute aw mw h dbNow cred file db = ((201, Item item), db', console)"
  then show "mailItems db' = mailItems db @ [item]"
    using uploadRoute_row_persisted by blast
qed

lemma example_upload_delivering:
  "uploadRoute quotaWorld deliveringWorld (utcHost 1710894600000) 1710894600123
       (TokenFor ''google_alice'') (Some exampleUpload) exampleDb
   = ((201, Item
        \<lparr>mi_id = 3, mi_userId = ''google_alice'',
         mi_title = ''Bill/Tax Document - council_tax_bill_2024'',
         mi_summary = ''Billing or tax document. Review payment details, due dates, and account information. Set reminder for payment if needed. (AI analysis temporarily unavailable due to quota limits)'',
         mi_category = ''bill'', mi_reminderDate = Some ''2024-04-03'',
         mi_imageUrl = ''/uploads/file-1710894600000.png'',
         mi_fileName = ''council_tax_bill_2024.png'',
         mi_extractedText = Some (fallbackText ''council_tax_bill_2024.png'' ''bill''),
         mi_uploadDate = 1710894600123\<rparr>),
      exampleDb\<lparr>mailItems := mailItems exampleDb @
        [\<lparr>mi_id = 3, mi_userId = ''google_alice'',
          mi_title = ''Bill/Tax Document - council_tax_bill_2024'',
          mi_summary = ''Billing or tax document. Review payment details, due dates, and account information. Set reminder for payment if needed. (AI analysis temporarily unavailable due to quota limits)'',
          mi_category = ''bill'', mi_reminderDate = Some ''2024-04-03'',
          mi_imageUrl = ''/uploads/file-1710894600000.png'',
          mi_fileName = ''council_tax_bill_2024.png'',
          mi_extractedText = Some (fallbackText ''council_tax_bill_2024.png'' ''bill''),
          mi_uploadDate = 1710894600123\<rparr>],
        mailItemsSeq := 3\<rparr>,
      [''Email sent successfully to alice@example.com: <1@example.com>''])"
  by code_simp

lemma example_missing_file:
  "usr_email (exampleUser ''google_alice'' ''alice@example.com'')
       = Some (CHR ''a'' # ''lice@example.com'')
   \<and> createTransporter missingFileWorld (exampleUser ''google_alice'' ''alice@example.com'')
       = Inr \<lparr>smtp_host = ''smtp.gmail.com'', smtp_port = Some 587, smtp_secure = False,
              smtp_user = ''posty@example.com'', smtp_pass = ''app-password'',
              from_name = ''Posty'', from_address = ''posty@example.com''\<rparr>
   \<and> \<not> existsSync missingFileWorld
         (pathJoin missingFileWorld (cwd missingFileWorld)
            (stripLeadingSlash (letter_imageUrl
              \<lparr>letter_id = 3, letter_title = ''Bill/Tax Document - council_tax_bill_2024'',
               letter_fileName = ''council_tax_bill_2024.png'',
               letter_imageUrl = ''/uploads/file-1710894600000.png'',
               letter_uploadDate = 1710894600123, letter_summary = Some ''Billing or tax document.'',
               letter_extractedText = None\<rparr>)))"
  by code_simp

lemma example_missing_file_lines:
  "[''File not found for email attachment: ''
      @ pathJoin missingFileWorld (cwd missingFileWorld)
          (stripLeadingSlash (letter_imageUrl
              \<lparr>letter_id = 3, letter_title = ''Bill/Tax Document - council_tax_bill_2024'',
               letter_fileName = ''council_tax_bill_2024.png'',
               letter_imageUrl = ''/uploads/file-1710894600000.png'',
               letter_uploadDate = 1710894600123, letter_summary = Some ''Billing or tax document.'',
               letter_extractedText = None\<rparr>)),
    ''Failed to send letter notification email: File not found: ''
      @ letter_fileName
              \<lparr>letter_id = 3, letter_title = ''Bill/Tax Document - council_tax_bill_2024'',
               letter_fileName = ''council_tax_bill_2024.png'',
               letter_imageUrl = ''/uploads/file-1710894600000.png'',
               letter_uploadDate = 1710894600123, letter_summary = Some ''Billing or tax document.'',
               letter_extractedText = None\<rparr>]
   = [''File not found for email attachment: /home/runner/posty/uploads/file-1710894600000.png'',
      ''Failed to send letter notification email: File not found: council_tax_bill_2024.png'']"
  by code_simp

lemma example_no_credentials:
  "usr_email (exampleUser ''google_alice'' ''alice@example.com'')
       = Some (CHR ''a'' # ''lice@example.com'')
   \<and> (smtp_user (getEmailConfig noCredentialsWorld (exampleUser ''google_alice'' ''alice@example.com'')) = []
      \<or> smtp_pass (getEmailConfig noCredentialsWorld (exampleUser ''google_alice'' ''alice@example.com'')) = [])"
  by code_simp

lemma example_smtp_down:
  "usr_email (exampleUser ''google_alice'' ''alice@example.com'')
       = Some (CHR ''a'' # ''lice@example.com'')
   \<and> createTransporter smtpDownWorld (exampleUser ''google_alice'' ''alice@example.com'')
       = Inr \<lparr>smtp_host = ''smtp.gmail.com'', smtp_port = Some 587, smtp_secure = False,
              smtp_user = ''posty@example.com'', smtp_pass = ''app-password'',
              from_name = ''Posty'', from_address = ''posty@example.com''\<rparr>
   \<and> existsSync smtpDownWorld
         (pathJoin smtpDownWorld (cwd smtpDownWorld)
            (stripLeadingSlash (letter_imageUrl
              \<lparr>letter_id = 3, letter_title = ''Bill/Tax Document - council_tax_bill_2024'',
               letter_fileName = ''council_tax_bill_2024.png'',
               letter_imageUrl = ''/uploads/file-1710894600000.png'',
               letter_uploadDate = 1710894600123, letter_summary = Some ''Billing or tax document.'',
               letter_extractedText = None\<rparr>)))
   \<and> (\<forall>mail. sendMail smtpDownWorld
          \<lparr>smtp_host = ''smtp.gmail.com'', smtp_port = Some 587, smtp_secure = False,
              smtp_user = ''posty@example.com'', smtp_pass = ''app-password'',
              from_name = ''Posty'', from_address = ''posty@example.com''\<rparr> mail
         = Inl (JsError ''connect ECONNREFUSED 127.0.0.1:587''))"
proof -
  have "createTransporter smtpDownWorld (exampleUser ''google_alice'' ''alice@example.com'')
       = Inr \<lparr>smtp_host = ''smtp.gmail.com'', smtp_port = Some 587, smtp_secure = False,
              smtp_user = ''posty@example.com'', smtp_pass = ''app-password'',
              from_name = ''Posty'', from_address = ''posty@example.com''\<rparr>"
    by code_simp
  moreover have "usr_email (exampleUser ''google_alice'' ''alice@example.com'')
       = Some (CHR ''a'' # ''lice@example.com'')"
    by code_simp
  ultimately show ?thesis
    by (simp add: smtpDownWorld_def exampleMailWorld_def)
qed

lemma example_smtp_down_line:
  "[''Failed to send letter notification email: ''
      @ errorMessage (JsError ''connect ECONNREFUSED 127.0.0.1:587'')]
   = [''Failed to send letter notification email: connect ECONNREFUSED 127.0.0.1:587'']"
  by code_simp

lemma example_no_email:
  "usr_email ((exampleUser ''apple_carol'' [])\<lparr>usr_email := None\<rparr>) = None
   \<or> usr_email ((exampleUser ''apple_carol'' [])\<lparr>usr_email := None\<rparr>) = Some []"
  by simp


theorem notification_never_raises_witness:
  "sendLetterNotification missingFileWorld (exampleUser ''google_alice'' ''alice@example.com'')
       \<lparr>letter_id = 3, letter_title = ''Bill/Tax Document - council_tax_bill_2024'',
        letter_fileName = ''council_tax_bill_2024.png'',
        letter_imageUrl = ''/uploads/file-1710894600000.png'',
        letter_uploadDate = 1710894600123, letter_summary = Some ''Billing or tax document.'',
        letter_extractedText = None\<rparr>
     = (Inr (), [''File not found for email attachment: /home/runner/posty/uploads/file-1710894600000.png'',
                 ''Failed to send letter notification email: File not found: council_tax_bill_2024.png''])
   \<and> fst (uploadRoute quotaWorld missingFileWorld (utcHost 1710894600000) 1710894600123
            (TokenFor ''google_alice'') (Some exampleUpload) exampleDb)
     = (201, Item
        \<lparr>mi_id = 3, mi_userId = ''google_alice'',
         mi_title = ''Bill/Tax Document - council_tax_bill_2024'',
         mi_summary = ''Billing or tax document. Review payment details, due dates, and account information. Set reminder for payment if needed. (AI analysis temporarily unavailable due to quota limits)'',
         mi_category = ''bill'', mi_reminderDate = Some ''2024-04-03'',
         mi_imageUrl = ''/uploads/file-1710894600000.png'',
         mi_fileName = ''council_tax_bill_2024.png'',
         mi_extractedText = Some (fallbackText ''council_tax_bill_2024.png'' ''bill''),
         mi_uploadDate = 1710894600123\<rparr>)
   \<and> mailItems (fst (snd (uploadRoute quotaWorld missingFileWorld (utcHost 1710894600000)
            1710894600123 (TokenFor ''google_alice'') (Some exampleUpload) exampleDb)))
     = mailItems exampleDb @
        [\<lparr>mi_id = 3, mi_userId = ''google_alice'',
          mi_title = ''Bill/Tax Document - council_tax_bill_2024'',
          mi_summary = ''Billing or tax document. Review payment details, due dates, and account information. Set reminder for payment if needed. (AI analysis temporarily unavailable due to quota limits)'',
          mi_category = ''bill'', mi_reminderDate = Some ''2024-04-03'',
          mi_imageUrl = ''/uploads/file-1710894600000.png'',
          mi_fileName = ''council_tax_bill_2024.png'',
          mi_extractedText = Some (fallbackText ''council_tax_bill_2024.png'' ''bill''),
          mi_uploadDate = 1710894600123\<rparr>]
   \<and> sendLetterNotification noCredentialsWorld (exampleUser ''google_alice'' ''alice@example.com'')
       \<lparr>letter_id = 3, letter_title = ''Bill/Tax Document - council_tax_bill_2024'',
        letter_fileName = ''council_tax_bill_2024.png'',
        letter_imageUrl = ''/uploads/file-1710894600000.png'',
        letter_uploadDate = 1710894600123, letter_summary = Some ''Billing or tax document.'',
        letter_extractedText = None\<rparr>
     = (Inr (), [''Failed to send letter notification email: SMTP credentials not configured. Please configure email settings in your profile.''])
   \<and> sendLetterNotification smtpDownWorld (exampleUser ''google_alice'' ''alice@example.com'')
       \<lparr>letter_id = 3, letter_title = ''Bill/Tax Document - council_tax_bill_2024'',
        letter_fileName = ''council_tax_bill_2024.png'',
        letter_imageUrl = ''/uploads/file-1710894600000.png'',
        letter_uploadDate = 1710894600123, letter_summary = Some ''Billing or tax document.'',
        letter_extractedText = None\<rparr>
     = (Inr (), [''Failed to send letter notification email: connect ECONNREFUSED 127.0.0.1:587''])
   \<and> sendLetterNotification deliveringWorld ((exampleUser ''apple_carol'' [])\<lparr>usr_email := None\<rparr>)
       \<lparr>letter_id = 3, letter_title = ''Bill/Tax Document - council_tax_bill_2024'',
        letter_fileName = ''council_tax_bill_2024.png'',
        letter_imageUrl = ''/uploads/file-1710894600000.png'',
        letter_uploadDate = 1710894600123, letter_summary = Some ''Billing or tax document.'',
        letter_extractedText = None\<rparr>
     = (Inr (), [''Cannot send email notification: user has no email address''])"
proof -
  note n = notification_never_raises[where mw = missingFileWorld
      and user = "exampleUser ''google_alice'' ''alice@example.com''"
      and letter = "\<lparr>letter_id = 3, letter_title = ''Bill/Tax Document - council_tax_bill_2024'',
        letter_fileName = ''council_tax_bill_2024.png'',
        letter_imageUrl = ''/uploads/file-1710894600000.png'',
        letter_uploadDate = 1710894600123, letter_summary = Some ''Billing or tax document.'',
        letter_extractedText = None\<rparr>"
      and c = "CHR ''a''" and cs = "''lice@example.com''"
      and transporter = "\<lparr>smtp_host = ''smtp.gmail.com'', smtp_port = Some 587, smtp_secure = False,
              smtp_user = ''posty@example.com'', smtp_pass = ''app-password'',
              from_name = ''Posty'', from_address = ''posty@example.com''\<rparr>",
      THEN conjunct2, THEN conjunct2, THEN conjunct2, THEN conjunct1]
  have a: "sendLetterNotification missingFileWorld (exampleUser ''google_alice'' ''alice@example.com'')
       \<lparr>letter_id = 3, letter_title = ''Bill/Tax Document - council_tax_bill_2024'',
        letter_fileName = ''council_tax_bill_2024.png'',
        letter_imageUrl = ''/uploads/file-1710894600000.png'',
        letter_uploadDate = 1710894600123, letter_summary = Some ''Billing or tax document.'',
        letter_extractedText = None\<rparr>
     = (Inr (), [''File not found for email attachment: /home/runner/posty/uploads/file-1710894600000.png'',
                 ''Failed to send letter notification email: File not found: council_tax_bill_2024.png''])"
    using n[THEN mp, OF example_missing_file] unfolding example_missing_file_lines .
  note u = notification_never_raises[where aw = quotaWorld and mw = missingFileWorld
      and mw' = deliveringWorld and h = "utcHost 1710894600000" and dbNow = 1710894600123
      and cred = "TokenFor ''google_alice''" and ?file = "Some exampleUpload" and db = exampleDb,
      THEN conjunct2, THEN conjunct2, THEN conjunct2, THEN conjunct2, THEN conjunct2]
  from u have b: "fst (uploadRoute quotaWorld missingFileWorld (utcHost 1710894600000) 1710894600123
            (TokenFor ''google_alice'') (Some exampleUpload) exampleDb)
      = fst (uploadRoute quotaWorld deliveringWorld (utcHost 1710894600000) 1710894600123
            (TokenFor ''google_alice'') (Some exampleUpload) exampleDb)"
    by (rule conjunct1)
  from u have c: "fst (snd (uploadRoute quotaWorld missingFileWorld (utcHost 1710894600000)
            1710894600123 (TokenFor ''google_alice'') (Some exampleUpload) exampleDb))
      = fst (snd (uploadRoute quotaWorld deliveringWorld (utcHost 1710894600000)
            1710894600123 (TokenFor ''google_alice'') (Some exampleUpload) exampleDb))"
    by (rule conjunct2[THEN conjunct1])
  have d: "sendLetterNotification noCredentialsWorld (exampleUser ''google_alice'' ''alice@example.com'')
       \<lparr>letter_id = 3, letter_title = ''Bill/Tax Document - council_tax_bill_2024'',
        letter_fileName = ''council_tax_bill_2024.png'',
        letter_imageUrl = ''/uploads/file-1710894600000.png'',
        letter_uploadDate = 1710894600123, letter_summary = Some ''Billing or tax document.'',
        letter_extractedText = None\<rparr>
     = (Inr (), [''Failed to send letter notification email: SMTP credentials not configured. Please configure email settings in your profile.''])"
    by (rule notification_never_raises[where mw = noCredentialsWorld
      and user = "exampleUser ''google_alice'' ''alice@example.com''"
      and c = "CHR ''a''" and cs = "''lice@example.com''",
      THEN conjunct2, THEN conjunct2, THEN conjunct1, THEN mp, OF example_no_credentials])
  have e: "sendLetterNotification smtpDownWorld (exampleUser ''google_alice'' ''alice@example.com'')
       \<lparr>letter_id = 3, letter_title = ''Bill/Tax Document - council_tax_bill_2024'',
        letter_fileName = ''council_tax_bill_2024.png'',
        letter_imageUrl = ''/uploads/file-1710894600000.png'',
        letter_uploadDate = 1710894600123, letter_summary = Some ''Billing or tax document.'',
        letter_extractedText = None\<rparr>
     = (Inr (), [''Failed to send letter notification email: connect ECONNREFUSED 127.0.0.1:587''])"
    using notification_never_raises[where mw = smtpDownWorld
      and user = "exampleUser ''google_alice'' ''alice@example.com''"
      and letter = "\<lparr>letter_id = 3, letter_title = ''Bill/Tax Document - council_tax_bill_2024'',
        letter_fileName = ''council_tax_bill_2024.png'',
        letter_imageUrl = ''/uploads/file-1710894600000.png'',
        letter_uploadDate = 1710894600123, letter_summary = Some ''Billing or tax document.'',
        letter_extractedText = None\<rparr>"
      and c = "CHR ''a''" and cs = "''lice@example.com''"
      and transporter = "\<lparr>smtp_host = ''smtp.gmail.com'', smtp_port = Some 587, smtp_secure = False,
              smtp_user = ''posty@example.com'', smtp_pass = ''app-password'',
              from_name = ''Posty'', from_address = ''posty@example.com''\<rparr>"
      and e = "JsError ''connect ECONNREFUSED 127.0.0.1:587''",
      THEN conjunct2, THEN conjunct2, THEN conjunct2, THEN conjunct2, THEN conjunct1, THEN mp,
      OF example_smtp_down]
    unfolding example_smtp_down_line .
  have f: "sendLetterNotification deliveringWorld ((exampleUser ''apple_carol'' [])\<lparr>usr_email := None\<rparr>)
       \<lparr>letter_id = 3, letter_title = ''Bill/Tax Document - council_tax_bill_2024'',
        letter_fileName = ''council_tax_bill_2024.png'',
        letter_imageUrl = ''/uploads/file-1710894600000.png'',
        letter_uploadDate = 1710894600123, letter_summary = Some ''Billing or tax document.'',
        letter_extractedText = None\<rparr>
     = (Inr (), [''Cannot send email notification: user has no email address''])"
    by (rule notification_never_raises[where mw = deliveringWorld
      and user = "(exampleUser ''apple_carol'' [])\<lparr>usr_email := None\<rparr>",
      THEN conjunct2, THEN conjunct1, THEN mp, OF example_no_email])
  show ?thesis
    unfolding b c example_upload_delivering using a d e f by simp
qed

end
